theory Spec2Isabelle
  imports Complex_Main
begin

section \<open>Python values and exceptions\<close>

text \<open>
  The values that \<open>json.load\<close> produces. A JSON number is the real number that the
  Python \<open>int\<close> or the finite \<open>float\<close> stands for; a number at or beyond
  \<open>float_limit\<close> below can only be an \<open>int\<close>, since no finite float is that large. The
  infinities and NaN that \<open>json.load\<close> accepts are outside the model. An object is the
  item list of the parsed \<open>dict\<close>, read with \<^const>\<open>map_of\<close>.

  Sections \<open>Phantom\<close> to \<open>FolderAnalyzer\<close> compute with exact reals: a float operation
  gives the exact result where Python gives the nearest double, and the conversion of
  an \<open>int\<close> that is too large for a float is an \<open>OverflowError\<close>. The last section of
  the definitions repeats \<open>set_density\<close> with every operation rounded to binary64,
  infinities and NaN included.
\<close>

datatype json =
    JNull
  | JBool bool
  | JNum real
  | JStr string
  | JArr "json list"
  | JObj "(string \<times> json) list"

datatype error =
    KeyError string
  | TypeError
  | IndexError
  | ZeroDivisionError
  | ValueError
  | OSError
  | OverflowError
  | UnicodeDecodeError

text \<open>A Python number used in arithmetic: \<open>int\<close>, \<open>float\<close> or \<open>bool\<close>; anything else
  makes \<open>*\<close> and \<open>/\<close> with a float raise \<open>TypeError\<close>.\<close>

fun as_number :: "json \<Rightarrow> real option" where
  "as_number (JNum r) = Some r"
| "as_number (JBool b) = Some (if b then 1 else 0)"
| "as_number _ = None"

text \<open>The least magnitude that does not round to a finite double: the largest double,
  \<open>2^1024 - 2^971\<close>, and half a unit in its last place, \<open>2^970\<close>.\<close>

definition float_limit :: real where
  "float_limit = 2 ^ 1024 - 2 ^ 970"

text \<open>The conversion of a number to \<open>float\<close> that arithmetic with a float makes: an
  \<open>int\<close> at or beyond the limit raises \<open>OverflowError\<close> (\<open>int too large to convert to
  float\<close>); a float is below the limit.\<close>

definition to_float :: "real \<Rightarrow> error + real" where
  "to_float z = (if float_limit \<le> \<bar>z\<bar> then Inl OverflowError else Inr z)"

text \<open>\<open>d * v\<close> for a float \<open>d\<close>: \<open>v\<close> is converted, then multiplied. A product of floats
  beyond the limit is an infinity in Python and no exception; here it is the exact
  product.\<close>

definition float_mul :: "real \<Rightarrow> json \<Rightarrow> error + real" where
  "float_mul d v =
     (case as_number v of
        None \<Rightarrow> Inl TypeError
      | Some z \<Rightarrow> (case to_float z of Inl e \<Rightarrow> Inl e | Inr zf \<Rightarrow> Inr (d * zf)))"

text \<open>\<open>a / b\<close> on floats: Python raises where HOL returns 0.\<close>

definition float_div :: "real \<Rightarrow> real \<Rightarrow> error + real" where
  "float_div a b = (if b = 0 then Inl ZeroDivisionError else Inr (a / b))"

text \<open>\<open>max(xs)\<close> of a list: \<open>ValueError\<close> on the empty list.\<close>

fun py_max :: "real list \<Rightarrow> error + real" where
  "py_max [] = Inl ValueError"
| "py_max (x # xs) = Inr (foldl max x xs)"

text \<open>\<open>int(x)\<close> of a float truncates towards zero.\<close>

definition py_int :: "real \<Rightarrow> int" where
  "py_int x = (if 0 \<le> x then \<lfloor>x\<rfloor> else \<lceil>x\<rceil>)"

text \<open>A list comprehension whose element expression may raise: the first exception
  leaves it.\<close>

fun map_err :: "('a \<Rightarrow> error + 'b) \<Rightarrow> 'a list \<Rightarrow> error + 'b list" where
  "map_err f [] = Inr []"
| "map_err f (x # xs) =
     (case f x of
        Inl e \<Rightarrow> Inl e
      | Inr y \<Rightarrow> (case map_err f xs of Inl e \<Rightarrow> Inl e | Inr ys \<Rightarrow> Inr (y # ys)))"

text \<open>\<open>p[key]\<close> with a string key: only a \<open>dict\<close> accepts it.\<close>

fun getitem :: "json \<Rightarrow> string \<Rightarrow> error + json" where
  "getitem (JObj kvs) k = (case map_of kvs k of None \<Rightarrow> Inl (KeyError k) | Some v \<Rightarrow> Inr v)"
| "getitem _ k = Inl TypeError"

section \<open>Phantom\<close>

record Phantom =
  name :: json
  material :: json
  xPos :: json
  yPos :: json
  zPos :: json
  xDir :: json
  yDir :: json
  zDir :: json
  radius :: json
  zsize :: json
  density :: real
  opacity :: real

text \<open>The two tables of \<open>set_density\<close>; the source calls the second one \<open>density\<close>,
  which is here the name of the attribute.\<close>

definition materials :: "string list" where
  "materials = [''lung'', ''brain'', ''fat'', ''bone'']"

definition densities :: "real list" where
  "densities = [0.296, 1.04, 0.92, 1.90]"

text \<open>\<open>[i for i, mat in enumerate(materials) if self.material == mat]\<close>\<close>

definition matching :: "json \<Rightarrow> nat list" where
  "matching m = map fst (filter (\<lambda>(i, mat). m = JStr mat) (enumerate 0 materials))"

text \<open>\<open>Phantom.set_density\<close>: the pair (density, opacity) it stores, or the exception it
  leaves with. The statements run in the order of the source: the opacity list, the
  index, the density, the opacity.\<close>

definition set_density :: "json \<Rightarrow> json \<Rightarrow> error + real \<times> real" where
  "set_density m z =
     (case map_err (\<lambda>d. float_mul d z) densities of
        Inl e \<Rightarrow> Inl e
      | Inr opacities \<Rightarrow>
          (case matching m of
             [] \<Rightarrow> Inl IndexError
           | index # _ \<Rightarrow>
               (case py_max densities of
                  Inl e \<Rightarrow> Inl e
                | Inr dmax \<Rightarrow>
                    (case float_div (densities ! index) dmax of
                       Inl e \<Rightarrow> Inl e
                     | Inr dens \<Rightarrow>
                         (case py_max opacities of
                            Inl e \<Rightarrow> Inl e
                          | Inr omax \<Rightarrow>
                              (case float_div (opacities ! index) omax of
                                 Inl e \<Rightarrow> Inl e
                               | Inr opac \<Rightarrow> Inr (dens, opac)))))))"

text \<open>\<open>Phantom.__init__\<close>\<close>

definition Phantom_init ::
  "json \<Rightarrow> json \<Rightarrow> json \<Rightarrow> json \<Rightarrow> json \<Rightarrow> json \<Rightarrow> json \<Rightarrow> json \<Rightarrow> json \<Rightarrow> json \<Rightarrow> error + Phantom"
where
  "Phantom_init nm mt xp yp zp xd yd zd rd zs =
     (case set_density mt zs of
        Inl e \<Rightarrow> Inl e
      | Inr (dens, opac) \<Rightarrow>
          Inr \<lparr>name = nm, material = mt, xPos = xp, yPos = yp, zPos = zp,
               xDir = xd, yDir = yd, zDir = zd, radius = rd, zsize = zs,
               density = dens, opacity = opac\<rparr>)"

section \<open>PhantomScenario\<close>

record params =
  size_cm :: real
  px :: nat

text \<open>What \<open>extract_index\<close> returns: the matched text, or the integer 0.\<close>

datatype label = Digits string | Zero

text \<open>\<open>str(self.label)\<close>\<close>

fun str_label :: "label \<Rightarrow> string" where
  "str_label (Digits s) = s"
| "str_label Zero = ''0''"

record PhantomScenario =
  configuration_file :: string
  output_dir :: string
  phantoms :: "Phantom list"
  label :: label
  params :: params

text \<open>The class \<open>\d\<close> of \<open>re\<close>, on the 8-bit characters of \<^typ>\<open>string\<close>.\<close>

definition is_digit :: "char \<Rightarrow> bool" where
  "is_digit c = (c \<in> set ''0123456789'')"

text \<open>\<open>re.search(r'\d+', name)\<close> finds the leftmost digit and takes the digits that
  follow it.\<close>

definition extract_index :: "string \<Rightarrow> label" where
  "extract_index nm =
     (let match = takeWhile is_digit (dropWhile (\<lambda>c. \<not> is_digit c) nm)
      in if match \<noteq> [] then Digits match else Zero)"

definition PhantomScenario_init :: "string \<Rightarrow> string \<Rightarrow> params \<Rightarrow> PhantomScenario" where
  "PhantomScenario_init cf od prm =
     \<lparr>configuration_file = cf, output_dir = od, phantoms = [],
      label = extract_index cf, params = prm\<rparr>"

subsection \<open>The world outside the program\<close>

text \<open>A pixel is (column, row); an image gives each pixel its gray value.\<close>

type_synonym image = "nat \<times> nat \<Rightarrow> int"

type_synonym bbox = "real \<times> real \<times> real \<times> real"

text \<open>What a path of the file system holds, as \<open>os.path.exists\<close>, \<open>open\<close> and
  \<open>json.load\<close> see it: nothing; something that \<open>open\<close> refuses (a directory, a file
  without read permission); bytes that are not text in the encoding of the platform;
  text that is not JSON; or a JSON value.\<close>

datatype file_state = Absent | Unreadable | Undecodable | NotJSON | Content json

text \<open>
  The environment of a run. The file system: \<open>listdir\<close> is \<open>os.listdir\<close>,
  \<open>read_file\<close> the state of a path, \<open>can_save\<close> whether \<open>img.save\<close> to a path succeeds.
  The drawing library: \<open>covers b\<close> is the set of pixels that \<open>draw.ellipse(b)\<close> fills,
  \<open>ink\<close> the gray value it stores for a fill colour. The library is not part of the
  program; every theorem below holds for any such library.
\<close>

record env =
  listdir :: "string \<Rightarrow> error + string list"
  read_file :: "string \<Rightarrow> file_state"
  can_save :: "string \<Rightarrow> bool"
  covers :: "bbox \<Rightarrow> nat \<times> nat \<Rightarrow> bool"
  ink :: "int \<Rightarrow> int"

text \<open>The lines the program prints, by the statement that prints them.\<close>

datatype message =
    FileDoesNotExist string
  | JSONDecodeFailed
  | PhantomsNotDefined string
  | MissingKey nat string
  | PhantomError nat error
  | OutputDirMissing

text \<open>What the program has printed and the images it has saved, oldest first.\<close>

record world =
  stdout :: "message list"
  saved :: "(string \<times> image) list"

definition print :: "message \<Rightarrow> world \<Rightarrow> world" where
  "print m w = w\<lparr>stdout := stdout w @ [m]\<rparr>"

text \<open>How a call ends: it returns, it calls \<open>sys.exit()\<close>, or an exception leaves it
  uncaught.\<close>

datatype 'a control = Return 'a | SysExit | Raise error

subsection \<open>Reading the configuration\<close>

definition required_keys :: "string list" where
  "required_keys =
     [''name'', ''material'', ''xPos'', ''yPos'', ''zPos'',
      ''xDir'', ''yDir'', ''zDir'', ''radius'', ''zsize'']"

fun build :: "json list \<Rightarrow> error + Phantom" where
  "build [nm, mt, xp, yp, zp, xd, yd, zd, rd, zs] = Phantom_init nm mt xp yp zp xd yd zd rd zs"
| "build _ = Inl ValueError"

text \<open>The call \<open>Phantom(name = p["name"], ..., zsize = p["zsize"])\<close>: the arguments are
  evaluated in the order they are written, then the constructor runs.\<close>

definition phantom_of_entry :: "json \<Rightarrow> error + Phantom" where
  "phantom_of_entry p =
     (case map_err (getitem p) required_keys of Inl e \<Rightarrow> Inl e | Inr vs \<Rightarrow> build vs)"

text \<open>\<open>sub in s\<close> on strings.\<close>

fun contains :: "string \<Rightarrow> string \<Rightarrow> bool" where
  "contains sub [] = (sub = [])"
| "contains sub (c # cs) = (take (length sub) (c # cs) = sub \<or> contains sub cs)"

text \<open>\<open>"Phantoms" in data\<close>\<close>

fun py_in :: "string \<Rightarrow> json \<Rightarrow> error + bool" where
  "py_in k (JObj kvs) = Inr (map_of kvs k \<noteq> None)"
| "py_in k (JArr xs) = Inr (JStr k \<in> set xs)"
| "py_in k (JStr s) = Inr (contains k s)"
| "py_in k _ = Inl TypeError"

text \<open>The values a \<open>for\<close> loop over a JSON value meets: the elements of a list, the
  keys of a dict, the characters of a string.\<close>

fun py_iter :: "json \<Rightarrow> error + json list" where
  "py_iter (JArr xs) = Inr xs"
| "py_iter (JObj kvs) = Inr (map (\<lambda>kv. JStr (fst kv)) kvs)"
| "py_iter (JStr s) = Inr (map (\<lambda>c. JStr [c]) s)"
| "py_iter _ = Inl TypeError"

text \<open>The loop \<open>for i, p in enumerate(phantoms_data)\<close>, from index \<open>i\<close> on.\<close>

fun read_loop ::
  "nat \<Rightarrow> json list \<Rightarrow> PhantomScenario \<Rightarrow> world \<Rightarrow> PhantomScenario control \<times> world"
where
  "read_loop i [] sc w = (Return sc, w)"
| "read_loop i (p # ps) sc w =
     (case phantom_of_entry p of
        Inr phantom \<Rightarrow> read_loop (i + 1) ps (sc\<lparr>phantoms := phantoms sc @ [phantom]\<rparr>) w
      | Inl (KeyError k) \<Rightarrow> (SysExit, print (MissingKey (i + 1) k) w)
      | Inl e \<Rightarrow> (SysExit, print (PhantomError (i + 1) e) w))"

definition ReadPhantomsFromConfiguration ::
  "env \<Rightarrow> PhantomScenario \<Rightarrow> world \<Rightarrow> PhantomScenario control \<times> world"
where
  "ReadPhantomsFromConfiguration ev sc w =
     (case read_file ev (configuration_file sc) of
        Absent \<Rightarrow> (Return sc, print (FileDoesNotExist (configuration_file sc)) w)
      | Unreadable \<Rightarrow> (Raise OSError, w)
      | Undecodable \<Rightarrow> (Raise UnicodeDecodeError, w)
      | NotJSON \<Rightarrow> (Return sc, print JSONDecodeFailed w)
      | Content data \<Rightarrow>
          (case py_in ''Phantoms'' data of
             Inl e \<Rightarrow> (Raise e, w)
           | Inr False \<Rightarrow> (Return sc, print (PhantomsNotDefined (configuration_file sc)) w)
           | Inr True \<Rightarrow>
               (case getitem data ''Phantoms'' of
                  Inl e \<Rightarrow> (Raise e, w)
                | Inr phantoms_data \<Rightarrow>
                    (case py_iter phantoms_data of
                       Inl e \<Rightarrow> (Raise e, w)
                     | Inr ps \<Rightarrow> read_loop 0 ps sc w))))"

subsection \<open>Drawing the image\<close>

text \<open>\<open>i * n / size\<close> for an attribute \<open>i\<close> of a phantom: the exact quotient when the
  product and the quotient are below the limit. At or beyond it no finite float holds
  them, and what Python does depends on the types, which a number of the model does
  not record. An \<open>int\<close> attribute raises \<open>OverflowError\<close> when the quotient is too large
  (\<open>integer division result too large for a float\<close>) or, with a float \<open>size\<close>, when the
  product is (\<open>int too large to convert to float\<close>); when only the product of two ints
  is beyond the limit, the quotient is still computed. A float attribute gives an
  infinity. The model returns \<open>OverflowError\<close> in all of this range, and the results
  about \<open>scale\<close> are stated below the limit.\<close>

definition scale :: "params \<Rightarrow> json \<Rightarrow> error + real" where
  "scale prm i =
     (case as_number i of
        None \<Rightarrow> Inl TypeError
      | Some v \<Rightarrow>
          if size_cm prm = 0 then Inl ZeroDivisionError
          else if float_limit \<le> \<bar>v * real (px prm)\<bar> \<or>
                  float_limit \<le> \<bar>v * real (px prm) / size_cm prm\<bar>
          then Inl OverflowError
          else Inr (v * real (px prm) / size_cm prm))"

text \<open>The centre \<open>(x, y)\<close> and the radius \<open>r\<close> of a phantom, in pixels.\<close>

definition pixel_circle :: "params \<Rightarrow> Phantom \<Rightarrow> error + real \<times> real \<times> real" where
  "pixel_circle prm p =
     (case map_err (scale prm) [xPos p, yPos p, radius p] of
        Inl e \<Rightarrow> Inl e
      | Inr circle \<Rightarrow>
          (case circle of
             [x_0, y_0, r] \<Rightarrow>
               (let center_x = real (px prm) / 2; center_y = real (px prm) / 2
                in Inr (center_x + x_0, center_y + y_0, r))
           | _ \<Rightarrow> Inl ValueError))"

definition bounding_box :: "real \<times> real \<times> real \<Rightarrow> bbox" where
  "bounding_box c = (case c of (x, y, r) \<Rightarrow> (x - r, y - r, x + r, y + r))"

text \<open>\<open>int(255 - p.opacity * 255)\<close>\<close>

definition fill_intensity :: "Phantom \<Rightarrow> int" where
  "fill_intensity p = py_int (255 - opacity p * 255)"

text \<open>\<open>draw.ellipse(bbox, fill)\<close> on an image of \<open>n\<close> by \<open>n\<close> pixels.\<close>

definition ellipse :: "env \<Rightarrow> nat \<Rightarrow> image \<Rightarrow> bbox \<Rightarrow> int \<Rightarrow> image" where
  "ellipse ev n img b fill =
     (\<lambda>q. if fst q < n \<and> snd q < n \<and> covers ev b q then ink ev fill else img q)"

text \<open>The loop \<open>for p in self.phantoms\<close>.\<close>

fun draw_phantoms :: "env \<Rightarrow> params \<Rightarrow> image \<Rightarrow> Phantom list \<Rightarrow> error + image" where
  "draw_phantoms ev prm img [] = Inr img"
| "draw_phantoms ev prm img (p # ps) =
     (case pixel_circle prm p of
        Inl e \<Rightarrow> Inl e
      | Inr c \<Rightarrow>
          draw_phantoms ev prm
            (ellipse ev (px prm) img (bounding_box c) (fill_intensity p)) ps)"

text \<open>\<open>Image.new('L', (n, n), 255)\<close>\<close>

definition new_image :: image where
  "new_image = (\<lambda>q. 255)"

definition image_path :: "PhantomScenario \<Rightarrow> string" where
  "image_path sc = output_dir sc @ ''/Phantoms_'' @ str_label (label sc) @ ''.png''"

definition GenerateImage :: "env \<Rightarrow> PhantomScenario \<Rightarrow> world \<Rightarrow> unit control \<times> world" where
  "GenerateImage ev sc w =
     (case draw_phantoms ev (params sc) new_image (phantoms sc) of
        Inl e \<Rightarrow> (Raise e, w)
      | Inr img \<Rightarrow>
          if can_save ev (image_path sc)
          then (Return (), w\<lparr>saved := saved w @ [(image_path sc, img)]\<rparr>)
          else (SysExit, print OutputDirMissing w))"

section \<open>FolderAnalyzer\<close>

text \<open>The attributes \<open>output_dir\<close> and \<open>params\<close> of the source are \<open>out_dir\<close> and
  \<open>img_params\<close> here: \<^typ>\<open>PhantomScenario\<close> has taken the names.\<close>

record FolderAnalyzer =
  input_dir :: string
  out_dir :: string
  img_params :: params

text \<open>\<open>PhantomScenario(self.input_dir + '/' + file, self.output_dir, self.params)\<close>\<close>

definition new_scene :: "FolderAnalyzer \<Rightarrow> string \<Rightarrow> PhantomScenario" where
  "new_scene fa file =
     PhantomScenario_init (input_dir fa @ ''/'' @ file) (out_dir fa) (img_params fa)"

text \<open>The body of the loop \<open>for file in conf_files\<close>, for a file it does not skip.\<close>

definition analyze_file :: "env \<Rightarrow> FolderAnalyzer \<Rightarrow> string \<Rightarrow> world \<Rightarrow> unit control \<times> world" where
  "analyze_file ev fa file w =
     (case ReadPhantomsFromConfiguration ev (new_scene fa file) w of
        (Return scene, w1) \<Rightarrow> GenerateImage ev scene w1
      | (SysExit, w1) \<Rightarrow> (SysExit, w1)
      | (Raise e, w1) \<Rightarrow> (Raise e, w1))"

fun analysis_loop :: "env \<Rightarrow> FolderAnalyzer \<Rightarrow> string list \<Rightarrow> world \<Rightarrow> unit control \<times> world" where
  "analysis_loop ev fa [] w = (Return (), w)"
| "analysis_loop ev fa (file # files) w =
     (if contains ''.json'' file then
        (case analyze_file ev fa file w of
           (Return u, w2) \<Rightarrow> analysis_loop ev fa files w2
         | (SysExit, w2) \<Rightarrow> (SysExit, w2)
         | (Raise e, w2) \<Rightarrow> (Raise e, w2))
      else analysis_loop ev fa files w)"

definition makeAnalysis :: "env \<Rightarrow> FolderAnalyzer \<Rightarrow> world \<Rightarrow> unit control \<times> world" where
  "makeAnalysis ev fa w =
     (case listdir ev (input_dir fa) of
        Inl e \<Rightarrow> (Raise e, w)
      | Inr conf_files \<Rightarrow> analysis_loop ev fa conf_files w)"

text \<open>Nothing printed and nothing saved: the world when the script starts.\<close>

definition empty_world :: world where
  "empty_world = \<lparr>stdout = [], saved = []\<rparr>"

text \<open>The script: the options give the two directories, the image parameters are
  fixed.\<close>

definition main :: "env \<Rightarrow> string \<Rightarrow> string \<Rightarrow> unit control \<times> world" where
  "main ev inputDir outputDir =
     makeAnalysis ev
       \<lparr>input_dir = inputDir, out_dir = outputDir,
        img_params = \<lparr>size_cm = 25, px = 512\<rparr>\<rparr>
       empty_world"

text \<open>The exit status of the process: 0 when the script runs to its end, 0 when it
  calls \<open>sys.exit()\<close>, which is given no argument anywhere, and 1 when an exception
  is not caught.\<close>

fun exit_status :: "unit control \<Rightarrow> nat" where
  "exit_status (Return u) = 0"
| "exit_status SysExit = 0"
| "exit_status (Raise e) = 1"


section \<open>Binary64 arithmetic\<close>

text \<open>
  Python's \<open>float\<close>, an IEEE 754 binary64 number: a finite value, an infinity or NaN.
  The sign of zero is left out; no result below depends on it.
\<close>

datatype double = Finite real | PosInf | NegInf | NaN

text \<open>Rounding to the nearest integer, ties to the even one.\<close>

definition round_half_even :: "real \<Rightarrow> int" where
  "round_half_even x =
     (let f = \<lfloor>x\<rfloor> in
      if x - of_int f < 1 / 2 then f
      else if 1 / 2 < x - of_int f then f + 1
      else if even f then f else f + 1)"

text \<open>The exponent \<open>e\<close> of the binade \<open>2^e \<le> |x| < 2^(e+1)\<close> of a real that is not 0; the
  subnormal numbers share the exponent -1022 of the smallest normal ones.\<close>

definition binade :: "real \<Rightarrow> int" where
  "binade x = max \<lfloor>log 2 \<bar>x\<bar>\<rfloor> (- 1022)"

text \<open>The double nearest to a real, ties to even: a multiple of the unit in the last
  place of the binade, which is 52 binary places below it. A real at or beyond
  \<open>float_limit\<close> rounds to an infinity.\<close>

definition to_double :: "real \<Rightarrow> double" where
  "to_double x =
     (if x = 0 then Finite 0
      else if float_limit \<le> \<bar>x\<bar> then (if 0 < x then PosInf else NegInf)
      else let ulp = 2 powr real_of_int (binade x - 52)
           in Finite (ulp * of_int (round_half_even (x / ulp))))"

text \<open>\<open>a * b\<close> on floats.\<close>

fun fmul :: "double \<Rightarrow> double \<Rightarrow> double" where
  "fmul (Finite a) (Finite b) = to_double (a * b)"
| "fmul NaN _ = NaN"
| "fmul _ NaN = NaN"
| "fmul (Finite a) PosInf = (if a = 0 then NaN else if 0 < a then PosInf else NegInf)"
| "fmul (Finite a) NegInf = (if a = 0 then NaN else if 0 < a then NegInf else PosInf)"
| "fmul PosInf (Finite b) = (if b = 0 then NaN else if 0 < b then PosInf else NegInf)"
| "fmul NegInf (Finite b) = (if b = 0 then NaN else if 0 < b then NegInf else PosInf)"
| "fmul PosInf PosInf = PosInf"
| "fmul PosInf NegInf = NegInf"
| "fmul NegInf PosInf = NegInf"
| "fmul NegInf NegInf = PosInf"

text \<open>\<open>a / b\<close> on floats: a zero divisor raises, whatever the dividend.\<close>

fun fdiv :: "double \<Rightarrow> double \<Rightarrow> error + double" where
  "fdiv a (Finite b) =
     (if b = 0 then Inl ZeroDivisionError
      else case a of
        Finite x \<Rightarrow> Inr (to_double (x / b))
      | PosInf \<Rightarrow> Inr (if 0 < b then PosInf else NegInf)
      | NegInf \<Rightarrow> Inr (if 0 < b then NegInf else PosInf)
      | NaN \<Rightarrow> Inr NaN)"
| "fdiv NaN _ = Inr NaN"
| "fdiv _ NaN = Inr NaN"
| "fdiv (Finite x) _ = Inr (Finite 0)"
| "fdiv _ _ = Inr NaN"

text \<open>\<open>a < b\<close> on floats: false when either is NaN.\<close>

fun fless :: "double \<Rightarrow> double \<Rightarrow> bool" where
  "fless NaN _ = False"
| "fless _ NaN = False"
| "fless (Finite a) (Finite b) = (a < b)"
| "fless PosInf _ = False"
| "fless _ PosInf = True"
| "fless NegInf NegInf = False"
| "fless NegInf _ = True"
| "fless _ NegInf = False"

text \<open>\<open>max(xs)\<close> on a list of floats: the first item, replaced by each later item that
  is greater.\<close>

fun dmax :: "double list \<Rightarrow> error + double" where
  "dmax [] = Inl ValueError"
| "dmax (x # xs) = Inr (foldl (\<lambda>m y. if fless m y then y else m) x xs)"

text \<open>The operand of \<open>d * v\<close> for a float \<open>d\<close>, as a float: a float is itself, an \<open>int\<close>
  is rounded, and raises \<open>OverflowError\<close> when it rounds to no finite double.\<close>

definition as_double :: "json \<Rightarrow> error + double" where
  "as_double v =
     (case as_number v of
        None \<Rightarrow> Inl TypeError
      | Some z \<Rightarrow>
          (case to_double z of Finite y \<Rightarrow> Inr (Finite y) | _ \<Rightarrow> Inl OverflowError))"

text \<open>\<open>Phantom.set_density\<close> in binary64: the table holds the doubles nearest to the
  literals, and every product and quotient is rounded.\<close>

definition set_density_binary64 :: "json \<Rightarrow> json \<Rightarrow> error + double \<times> double" where
  "set_density_binary64 m z =
     (let density = map to_double densities in
      case map_err (\<lambda>d. case as_double z of Inl e \<Rightarrow> Inl e | Inr zf \<Rightarrow> Inr (fmul d zf))
             density of
        Inl e \<Rightarrow> Inl e
      | Inr opacities \<Rightarrow>
          (case matching m of
             [] \<Rightarrow> Inl IndexError
           | index # _ \<Rightarrow>
               (case dmax density of
                  Inl e \<Rightarrow> Inl e
                | Inr dmx \<Rightarrow>
                    (case fdiv (density ! index) dmx of
                       Inl e \<Rightarrow> Inl e
                     | Inr dens \<Rightarrow>
                         (case dmax opacities of
                            Inl e \<Rightarrow> Inl e
                          | Inr omx \<Rightarrow>
                              (case fdiv (opacities ! index) omx of
                                 Inl e \<Rightarrow> Inl e
                               | Inr opac \<Rightarrow> Inr (dens, opac)))))))"

section \<open>Scenes that differ in the fields the drawing does not read\<close>

text \<open>Two phantom entries that agree on the material, \<open>xPos\<close>, \<open>yPos\<close>, \<open>radius\<close> and
  \<open>zsize\<close>, and that both have, or both lack, each of the other required fields; the
  values of \<open>zPos\<close>, \<open>xDir\<close>, \<open>yDir\<close>, \<open>zDir\<close> (and of the name) are free.\<close>

definition differ_only_hidden :: "json \<Rightarrow> json \<Rightarrow> bool" where
  "differ_only_hidden e e' =
     (list_all (\<lambda>k. getitem e k = getitem e' k)
        [''material'', ''xPos'', ''yPos'', ''radius'', ''zsize''] \<and>
      list_all (\<lambda>k. isl (getitem e k) = isl (getitem e' k))
        [''name'', ''zPos'', ''xDir'', ''yDir'', ''zDir''])"

text \<open>Two phantoms with the same attributes but the name, \<open>zPos\<close> and the direction.\<close>

definition same_drawn :: "Phantom \<Rightarrow> Phantom \<Rightarrow> bool" where
  "same_drawn p p' =
     (material p = material p' \<and> xPos p = xPos p' \<and> yPos p = yPos p' \<and>
      radius p = radius p' \<and> zsize p = zsize p' \<and>
      density p = density p' \<and> opacity p = opacity p')"

section \<open>Example inputs\<close>

text \<open>A phantom entry with all its fields: material, \<open>xPos\<close>, \<open>yPos\<close>, \<open>radius\<close> and
  \<open>zsize\<close> as given, at \<open>zPos\<close> 0 along the z axis.\<close>

definition entry :: "string \<Rightarrow> real \<Rightarrow> real \<Rightarrow> real \<Rightarrow> real \<Rightarrow> json" where
  "entry mat x y r z =
     JObj [(''name'', JStr ''p''), (''material'', JStr mat), (''xPos'', JNum x),
           (''yPos'', JNum y), (''zPos'', JNum 0), (''xDir'', JNum 0), (''yDir'', JNum 0),
           (''zDir'', JNum 1), (''radius'', JNum r), (''zsize'', JNum z)]"

text \<open>A configuration with the given phantom entries.\<close>

definition config :: "json list \<Rightarrow> file_state" where
  "config es = Content (JObj [(''Phantoms'', JArr es)])"

text \<open>A rasteriser: the pixels whose corner lies in the disk inscribed in the box.\<close>

definition disk :: "bbox \<Rightarrow> nat \<times> nat \<Rightarrow> bool" where
  "disk b q =
     (case b of (x0, y0, x1, y1) \<Rightarrow>
        (2 * real (fst q) - (x0 + x1))\<^sup>2 + (2 * real (snd q) - (y0 + y1))\<^sup>2 \<le> (x1 - x0)\<^sup>2)"

text \<open>An environment: the directory listing, the file every path holds, whether saving
  succeeds; the rasteriser is \<^const>\<open>disk\<close> and the ink is the fill value.\<close>

definition example_env :: "string list \<Rightarrow> file_state \<Rightarrow> bool \<Rightarrow> env" where
  "example_env names st ok =
     \<lparr>listdir = (\<lambda>d. Inr names), read_file = (\<lambda>f. st), can_save = (\<lambda>f. ok),
      covers = disk, ink = (\<lambda>v. v)\<rparr>"

definition example_analyzer :: FolderAnalyzer where
  "example_analyzer =
     \<lparr>input_dir = ''in'', out_dir = ''out'', img_params = \<lparr>size_cm = 25, px = 512\<rparr>\<rparr>"

section \<open>Density and opacity\<close>

lemma materials_cases:
  "m \<in> set materials \<Longrightarrow> m = ''lung'' \<or> m = ''brain'' \<or> m = ''fat'' \<or> m = ''bone''"
  by (auto simp: materials_def)

lemma small_below_limit: "\<bar>z\<bar> \<le> 2 ^ 64 \<Longrightarrow> \<not> float_limit \<le> \<bar>z\<bar>"
proof -
  have "(2::real) ^ 64 < float_limit" by (simp add: float_limit_def)
  then show "\<bar>z\<bar> \<le> 2 ^ 64 \<Longrightarrow> \<not> float_limit \<le> \<bar>z\<bar>" by linarith
qed

lemma set_density_positive:
  assumes "0 < z" and "z < float_limit"
  shows "set_density (JStr ''lung'') (JNum z) = Inr (0.296 / 1.90, 0.296 * z / (1.90 * z))"
    and "set_density (JStr ''brain'') (JNum z) = Inr (1.04 / 1.90, 1.04 * z / (1.90 * z))"
    and "set_density (JStr ''fat'') (JNum z) = Inr (0.92 / 1.90, 0.92 * z / (1.90 * z))"
    and "set_density (JStr ''bone'') (JNum z) = Inr (1.90 / 1.90, 1.90 * z / (1.90 * z))"
  using assms
  by (simp_all add: set_density_def densities_def float_mul_def float_div_def to_float_def
      matching_def materials_def max_def)

lemma set_density_small:
  assumes "0 < z" and "z \<le> 2 ^ 64"
  shows "set_density (JStr ''lung'') (JNum z) = Inr (0.296 / 1.90, 0.296 * z / (1.90 * z))"
    and "set_density (JStr ''brain'') (JNum z) = Inr (1.04 / 1.90, 1.04 * z / (1.90 * z))"
    and "set_density (JStr ''fat'') (JNum z) = Inr (0.92 / 1.90, 0.92 * z / (1.90 * z))"
    and "set_density (JStr ''bone'') (JNum z) = Inr (1.90 / 1.90, 1.90 * z / (1.90 * z))"
proof -
  from assms small_below_limit [of z] have "z < float_limit" by simp
  from set_density_positive [OF assms(1) this]
  show "set_density (JStr ''lung'') (JNum z) = Inr (0.296 / 1.90, 0.296 * z / (1.90 * z))"
    and "set_density (JStr ''brain'') (JNum z) = Inr (1.04 / 1.90, 1.04 * z / (1.90 * z))"
    and "set_density (JStr ''fat'') (JNum z) = Inr (0.92 / 1.90, 0.92 * z / (1.90 * z))"
    and "set_density (JStr ''bone'') (JNum z) = Inr (1.90 / 1.90, 1.90 * z / (1.90 * z))"
    by simp_all
qed

lemma set_density_zero:
  assumes "m \<in> set materials"
  shows "set_density (JStr m) (JNum 0) = Inl ZeroDivisionError"
  using materials_cases [OF assms] small_below_limit [of 0]
  by (auto simp add: set_density_def densities_def float_mul_def float_div_def to_float_def
      matching_def materials_def max_def)

lemma Max_densities: "Max (set densities) = 1.90"
  by (simp add: densities_def)

lemma Max_opacities: "0 < z \<Longrightarrow> Max ((\<lambda>d. d * z) ` set densities) = 1.90 * z"
  by (simp add: densities_def)

text \<open>In the exact arithmetic of this section the two values are equal: the density
  \<open>d\<close> of the material over the largest density, and \<open>d * zsize\<close> over the largest of
  the four products.\<close>

lemma exact_opacity_equals_density:
  assumes "m \<in> set materials" and "0 < z" and "z < float_limit"
  shows "\<exists>d. map_of (zip materials densities) m = Some d \<and>
     set_density (JStr m) (JNum z) =
       Inr (d / Max (set densities), d * z / Max ((\<lambda>d'. d' * z) ` set densities)) \<and>
     d * z / Max ((\<lambda>d'. d' * z) ` set densities) = d / Max (set densities)"
proof -
  have tbl: "map_of (zip materials densities) ''lung'' = Some 0.296"
    "map_of (zip materials densities) ''brain'' = Some 1.04"
    "map_of (zip materials densities) ''fat'' = Some 0.92"
    "map_of (zip materials densities) ''bone'' = Some 1.90"
    by (simp_all add: materials_def densities_def)
  have nz: "z \<noteq> 0" using assms(2) by simp
  note sd = set_density_positive [OF assms(2,3)]
  from materials_cases [OF assms(1)] consider
    "m = ''lung''" | "m = ''brain''" | "m = ''fat''" | "m = ''bone''" by blast
  then show ?thesis
  proof cases
    case 1
    show ?thesis
      by (rule exI [of _ "0.296"])
        (simp add: 1 tbl sd Max_densities Max_opacities [OF assms(2)] nz)
  next
    case 2
    show ?thesis
      by (rule exI [of _ "1.04"])
        (simp add: 2 tbl sd Max_densities Max_opacities [OF assms(2)] nz)
  next
    case 3
    show ?thesis
      by (rule exI [of _ "0.92"])
        (simp add: 3 tbl sd Max_densities Max_opacities [OF assms(2)] nz)
  next
    case 4
    show ?thesis
      by (rule exI [of _ "1.90"])
        (simp add: 4 tbl sd Max_densities Max_opacities [OF assms(2)] nz)
  qed
qed

text \<open>
  C7. For each of the four recognised materials and any positive \<open>zsize\<close> that a float
  can hold (below \<open>float_limit\<close>; a larger \<open>int\<close> makes the constructor raise
  \<open>OverflowError\<close>), the constructor returns a phantom whose density is greater than 0
  and at most 1, and it is exactly 1 for bone.
\<close>

theorem density_in_unit_interval:
  assumes "m \<in> set materials" and "0 < z" and "z < float_limit"
  shows "\<exists>p. Phantom_init nm (JStr m) xp yp zp xd yd zd rd (JNum z) = Inr p \<and>
     0 < density p \<and> density p \<le> 1 \<and> (m = ''bone'' \<longrightarrow> density p = 1)"
  using materials_cases [OF assms(1)] set_density_positive [OF assms(2,3)]
  by (elim disjE) (simp_all add: Phantom_init_def)

theorem density_in_unit_interval_witness:
  "\<exists>p. Phantom_init (JStr ''rib'') (JStr ''bone'') (JNum 1) (JNum 2) (JNum 0)
          (JNum 0) (JNum 0) (JNum 1) (JNum 3) (JNum 10) = Inr p \<and>
     0 < density p \<and> density p \<le> 1 \<and> density p = 1"
proof -
  have "(10::real) < float_limit" using small_below_limit [of 10] by simp
  with density_in_unit_interval [of "''bone''" 10 "JStr ''rib''" "JNum 1" "JNum 2" "JNum 0"
      "JNum 0" "JNum 0" "JNum 1" "JNum 3"]
  show ?thesis by (simp add: materials_def)
qed

section \<open>The fill intensity\<close>




section \<open>The projection to pixels\<close>

lemma scale_fits:
  assumes "size_cm prm \<noteq> 0" and "as_number i = Some v"
    and "\<bar>v * real (px prm)\<bar> < float_limit"
    and "\<bar>v * real (px prm) / size_cm prm\<bar> < float_limit"
  shows "scale prm i = Inr (v * real (px prm) / size_cm prm)"
  using assms by (simp add: scale_def)

lemma scale_small:
  assumes "size_cm prm \<noteq> 0"
    and "\<bar>v * real (px prm)\<bar> \<le> 2 ^ 64" and "\<bar>v * real (px prm) / size_cm prm\<bar> \<le> 2 ^ 64"
  shows "scale prm (JNum v) = Inr (v * real (px prm) / size_cm prm)"
proof (rule scale_fits [OF assms(1)])
  show "\<bar>v * real (px prm)\<bar> < float_limit"
    using small_below_limit [OF assms(2)] by simp
  show "\<bar>v * real (px prm) / size_cm prm\<bar> < float_limit"
    using small_below_limit [OF assms(3)] by simp
qed simp

text \<open>
  C3. With a field of view that is not 0 and numeric \<open>xPos\<close>, \<open>yPos\<close> and \<open>radius\<close> whose
  products with \<open>n\<close> and quotients by \<open>size\<close> a float can hold (they are below
  \<open>float_limit\<close>; beyond it the program raises \<open>OverflowError\<close> or computes with an
  infinity), the centre of a phantom in pixels is
  \<open>(n/2 + xPos * n/size, n/2 + yPos * n/size)\<close> and its radius in pixels is
  \<open>radius * n/size\<close>. The witness is the phantom at the origin with radius 5, seen in
  25 cm on 512 pixels: centre (256, 256), radius 102.4.
\<close>

theorem pixel_circle_formula:
  assumes "size_cm prm \<noteq> 0"
    and "as_number (xPos p) = Some x" and "as_number (yPos p) = Some y"
    and "as_number (radius p) = Some r"
    and "\<forall>v\<in>{x, y, r}. \<bar>v * real (px prm)\<bar> < float_limit \<and>
           \<bar>v * real (px prm) / size_cm prm\<bar> < float_limit"
  shows "pixel_circle prm p =
     Inr (real (px prm) / 2 + x * real (px prm) / size_cm prm,
          real (px prm) / 2 + y * real (px prm) / size_cm prm,
          r * real (px prm) / size_cm prm)"
proof -
  from assms(5) have "scale prm (xPos p) = Inr (x * real (px prm) / size_cm prm)"
    by (intro scale_fits [OF assms(1,2)]) simp_all
  moreover from assms(5) have "scale prm (yPos p) = Inr (y * real (px prm) / size_cm prm)"
    by (intro scale_fits [OF assms(1,3)]) simp_all
  moreover from assms(5) have "scale prm (radius p) = Inr (r * real (px prm) / size_cm prm)"
    by (intro scale_fits [OF assms(1,4)]) simp_all
  ultimately show ?thesis by (simp add: pixel_circle_def)
qed

theorem pixel_circle_formula_witness:
  "pixel_circle \<lparr>size_cm = 25, px = 512\<rparr>
     \<lparr>name = JStr ''a'', material = JStr ''bone'', xPos = JNum 0, yPos = JNum 0, zPos = JNum 0,
      xDir = JNum 0, yDir = JNum 0, zDir = JNum 1, radius = JNum 5, zsize = JNum 10,
      density = 1, opacity = 1\<rparr> = Inr (256, 256, 102.4)"
proof -
  have "\<forall>v\<in>{0, 0, 5::real}. \<bar>v * real (px \<lparr>size_cm = 25, px = 512\<rparr>)\<bar> < float_limit \<and>
      \<bar>v * real (px \<lparr>size_cm = 25, px = 512\<rparr>) / size_cm \<lparr>size_cm = 25, px = 512\<rparr>\<bar>
        < float_limit"
    using small_below_limit [of 2560] small_below_limit [of "2560 / 25"]
      small_below_limit [of 0] by simp
  with pixel_circle_formula [of "\<lparr>size_cm = 25, px = 512\<rparr>"
     "\<lparr>name = JStr ''a'', material = JStr ''bone'', xPos = JNum 0, yPos = JNum 0, zPos = JNum 0,
      xDir = JNum 0, yDir = JNum 0, zDir = JNum 1, radius = JNum 5, zsize = JNum 10,
      density = 1, opacity = 1\<rparr>" 0 0 5]
  show ?thesis by simp
qed

section \<open>Loading a configuration\<close>

lemma map_err_fails: "x \<in> set xs \<Longrightarrow> f x = Inl e \<Longrightarrow> \<exists>e'. map_err f xs = Inl e'"
  by (induction xs) (auto split: sum.splits)

lemma map_err_first_error: "map_err f xs = Inl e \<Longrightarrow> \<exists>x\<in>set xs. f x = Inl e"
  by (induction xs) (auto split: sum.splits)

lemma map_err_all: "\<forall>x\<in>set xs. \<exists>y. f x = Inr y \<Longrightarrow> \<exists>ys. map_err f xs = Inr ys"
  by (induction xs) (auto split: sum.splits)

lemma map_err_Inr_map: "map_err f xs = Inr ys \<Longrightarrow> map f xs = map Inr ys"
  by (induction xs arbitrary: ys) (auto split: sum.splits)

lemma read_loop_append:
  "map_err phantom_of_entry pre = Inr phs \<Longrightarrow>
   read_loop i (pre @ rest) sc w =
     read_loop (i + length pre) rest (sc\<lparr>phantoms := phantoms sc @ phs\<rparr>) w"
proof (induction pre arbitrary: i sc phs)
  case Nil
  then show ?case by simp
next
  case (Cons p pre)
  then show ?case by (auto split: sum.splits)
qed

lemma read_loop_all_ok:
  "map_err phantom_of_entry es = Inr phs \<Longrightarrow>
   read_loop i es sc w = (Return (sc\<lparr>phantoms := phantoms sc @ phs\<rparr>), w)"
  using read_loop_append [of es phs i "[]" sc w] by simp

lemma read_loop_Return:
  "read_loop i es sc w = (Return sc', w') \<Longrightarrow>
   \<exists>phs. map_err phantom_of_entry es = Inr phs \<and>
     sc' = sc\<lparr>phantoms := phantoms sc @ phs\<rparr> \<and> w' = w"
proof (induction es arbitrary: i sc)
  case Nil
  then show ?case by simp
next
  case (Cons p es)
  show ?case
  proof (cases "phantom_of_entry p")
    case (Inl e)
    with Cons.prems show ?thesis by (cases e) simp_all
  next
    case (Inr ph)
    with Cons.prems
    have "read_loop (i + 1) es (sc\<lparr>phantoms := phantoms sc @ [ph]\<rparr>) w = (Return sc', w')"
      by simp
    from Cons.IH [OF this] Inr show ?thesis by auto
  qed
qed

lemma read_loop_error:
  "phantom_of_entry p = Inl e \<Longrightarrow>
   read_loop i (p # ps) sc w =
     (SysExit,
      print (case e of KeyError k \<Rightarrow> MissingKey (i + 1) k | _ \<Rightarrow> PhantomError (i + 1) e) w)"
  by (cases e) simp_all

lemma Read_array:
  assumes "read_file ev (configuration_file sc) = Content (JObj items)"
    and "map_of items ''Phantoms'' = Some (JArr es)"
  shows "ReadPhantomsFromConfiguration ev sc w = read_loop 0 es sc w"
  using assms by (simp add: ReadPhantomsFromConfiguration_def)

lemma zero_entry:
  assumes present: "\<forall>k\<in>set required_keys. \<exists>v. getitem p k = Inr v"
    and mat: "getitem p ''material'' = Inr (JStr m)" "m \<in> set materials"
    and zs: "getitem p ''zsize'' = Inr (JNum 0)"
  shows "phantom_of_entry p = Inl ZeroDivisionError"
proof -
  from present obtain nm xp yp zp xd yd zd rd where
    "getitem p ''name'' = Inr nm" "getitem p ''xPos'' = Inr xp" "getitem p ''yPos'' = Inr yp"
    "getitem p ''zPos'' = Inr zp" "getitem p ''xDir'' = Inr xd" "getitem p ''yDir'' = Inr yd"
    "getitem p ''zDir'' = Inr zd" "getitem p ''radius'' = Inr rd"
    unfolding required_keys_def by auto
  then show ?thesis
    using mat zs
    by (simp add: phantom_of_entry_def required_keys_def Phantom_init_def set_density_zero)
qed

lemma missing_key_entry:
  assumes "k \<in> set required_keys" and "map_of kvs k = None"
  shows "\<exists>k'. phantom_of_entry (JObj kvs) = Inl (KeyError k') \<and> k' \<in> set required_keys \<and> map_of kvs k' = None"
proof -
  have "getitem (JObj kvs) k = Inl (KeyError k)" using assms(2) by simp
  from map_err_fails [of k required_keys "getitem (JObj kvs)", OF assms(1) this]
  obtain e where e: "map_err (getitem (JObj kvs)) required_keys = Inl e" by blast
  from map_err_first_error [OF this] obtain k' where
    k': "k' \<in> set required_keys" "getitem (JObj kvs) k' = Inl e" by blast
  then have "e = KeyError k' \<and> map_of kvs k' = None"
    by (auto split: option.splits)
  with e k' show ?thesis by (auto simp: phantom_of_entry_def)
qed

lemma read_loop_exits:
  "\<exists>p\<in>set es. \<exists>e. phantom_of_entry p = Inl e \<Longrightarrow> \<exists>m. read_loop i es sc w = (SysExit, print m w)"
proof (induction es arbitrary: i sc)
  case Nil
  then show ?case by simp
next
  case (Cons p es)
  show ?case
  proof (cases "phantom_of_entry p")
    case (Inl e)
    from read_loop_error [OF this] show ?thesis by blast
  next
    case (Inr ph)
    with Cons.prems have "\<exists>p\<in>set es. \<exists>e. phantom_of_entry p = Inl e" by auto
    from Cons.IH [OF this] Inr show ?thesis by simp
  qed
qed

lemma GenerateImage_empty:
  "phantoms sc = [] \<Longrightarrow> GenerateImage ev sc w =
     (if can_save ev (image_path sc)
      then (Return (), w\<lparr>saved := saved w @ [(image_path sc, new_image)]\<rparr>)
      else (SysExit, print OutputDirMissing w))"
  by (simp add: GenerateImage_def)

lemma analyze_file_exit:
  "ReadPhantomsFromConfiguration ev (new_scene fa file) w = (SysExit, w') \<Longrightarrow>
   analyze_file ev fa file w = (SysExit, w')"
  by (simp add: analyze_file_def)

lemma analysis_loop_exit:
  "contains ''.json'' file \<Longrightarrow> analyze_file ev fa file w = (SysExit, w') \<Longrightarrow>
   analysis_loop ev fa (file # files) w = (SysExit, w')"
  by simp

lemma analysis_loop_prefix:
  assumes "\<forall>f\<in>set pre. contains ''.json'' f \<longrightarrow> (\<forall>w. \<exists>w'. analyze_file ev fa f w = (Return (), w'))"
  shows "\<exists>w'. analysis_loop ev fa (pre @ rest) w = analysis_loop ev fa rest w'"
  using assms
proof (induction pre arbitrary: w)
  case Nil
  then show ?case by auto
next
  case (Cons f pre)
  show ?case
  proof (cases "contains ''.json'' f")
    case True
    with Cons.prems have "\<forall>w. \<exists>w'. analyze_file ev fa f w = (Return (), w')" by simp
    then obtain w1 where "analyze_file ev fa f w = (Return (), w1)" by blast
    moreover from Cons.prems have "\<exists>w'. analysis_loop ev fa (pre @ rest) w1 = analysis_loop ev fa rest w'"
      by (intro Cons.IH) auto
    ultimately show ?thesis using True by simp
  next
    case False
    moreover from Cons.prems have "\<exists>w'. analysis_loop ev fa (pre @ rest) w = analysis_loop ev fa rest w'"
      by (intro Cons.IH) auto
    ultimately show ?thesis by simp
  qed
qed

section \<open>A zero axial length\<close>

text \<open>
  C10. A phantom entry that has every required field, a recognised material and
  \<open>zsize\<close> 0 makes \<open>set_density\<close> divide by the largest opacity, which is 0: the
  constructor leaves with \<open>ZeroDivisionError\<close>. In the loading loop only the handler for
  \<open>Exception\<close> catches it, prints the number of the entry and calls \<open>sys.exit()\<close>: when
  the entries before it are built, the batch stops at this file and the files after it
  are not processed.
\<close>

theorem zero_zsize_is_fatal:
  assumes present: "\<forall>k\<in>set required_keys. \<exists>v. getitem p k = Inr v"
    and mat: "getitem p ''material'' = Inr (JStr m)" "m \<in> set materials"
    and zs: "getitem p ''zsize'' = Inr (JNum 0)"
    and earlier: "map_err phantom_of_entry pre = Inr phs"
    and cfg: "contains ''.json'' file"
      "read_file ev (input_dir fa @ ''/'' @ file) = Content (JObj items)"
      "map_of items ''Phantoms'' = Some (JArr (pre @ p # post))"
  shows "set_density (JStr m) (JNum 0) = Inl ZeroDivisionError \<and>
    phantom_of_entry p = Inl ZeroDivisionError \<and>
    analysis_loop ev fa (file # files) w =
      (SysExit, print (PhantomError (length pre + 1) ZeroDivisionError) w)"
proof -
  let ?sc = "new_scene fa file"
  have p: "phantom_of_entry p = Inl ZeroDivisionError"
    using zero_entry [OF present mat zs] .
  have "ReadPhantomsFromConfiguration ev ?sc w = read_loop 0 (pre @ p # post) ?sc w"
    using cfg(2,3) by (intro Read_array) (simp_all add: new_scene_def PhantomScenario_init_def)
  also have "\<dots> = read_loop (0 + length pre) (p # post) (?sc\<lparr>phantoms := phantoms ?sc @ phs\<rparr>) w"
    by (rule read_loop_append [OF earlier])
  also have "\<dots> = (SysExit, print (PhantomError (length pre + 1) ZeroDivisionError) w)"
    using read_loop_error [OF p] by simp
  finally have "analyze_file ev fa file w = (SysExit, print (PhantomError (length pre + 1) ZeroDivisionError) w)"
    by (rule analyze_file_exit)
  with cfg(1) p set_density_zero [OF mat(2)] show ?thesis by simp
qed


theorem zero_zsize_is_fatal_witness:
  "set_density (JStr ''bone'') (JNum 0) = Inl ZeroDivisionError \<and>
   phantom_of_entry (entry ''bone'' 0 0 5 0) = Inl ZeroDivisionError \<and>
   analysis_loop (example_env [''c_7.json'', ''c_8.json''] (config [entry ''fat'' 1 2 3 4, entry ''bone'' 0 0 5 0]) True)
     example_analyzer [''c_7.json'', ''c_8.json''] empty_world =
       (SysExit, print (PhantomError 2 ZeroDivisionError) empty_world)"
proof -
  have ok: "map_err phantom_of_entry [entry ''fat'' 1 2 3 4] =
      Inr [\<lparr>name = JStr ''p'', material = JStr ''fat'', xPos = JNum 1, yPos = JNum 2,
            zPos = JNum 0, xDir = JNum 0, yDir = JNum 0, zDir = JNum 1, radius = JNum 3,
            zsize = JNum 4, density = 46 / 95, opacity = 46 / 95\<rparr>]"
    by (simp add: phantom_of_entry_def entry_def required_keys_def Phantom_init_def
        set_density_small)
  have "set_density (JStr ''bone'') (JNum 0) = Inl ZeroDivisionError \<and>
    phantom_of_entry (entry ''bone'' 0 0 5 0) = Inl ZeroDivisionError \<and>
    analysis_loop (example_env [''c_7.json'', ''c_8.json''] (config [entry ''fat'' 1 2 3 4, entry ''bone'' 0 0 5 0]) True)
      example_analyzer (''c_7.json'' # [''c_8.json'']) empty_world =
        (SysExit, print (PhantomError (length [entry ''fat'' 1 2 3 4] + 1) ZeroDivisionError) empty_world)"
  proof (rule zero_zsize_is_fatal [where items = "[(''Phantoms'', JArr [entry ''fat'' 1 2 3 4, entry ''bone'' 0 0 5 0])]"
        and post = "[]", OF _ _ _ _ ok])
    show "\<forall>k\<in>set required_keys. \<exists>v. getitem (entry ''bone'' 0 0 5 0) k = Inr v"
      by (simp add: entry_def required_keys_def)
  qed (simp_all add: entry_def materials_def example_env_def config_def)
  moreover have "length [entry ''fat'' 1 2 3 4] + 1 = 2" by simp
  ultimately show ?thesis by (simp only:)
qed

lemma new_scene_simps:
  "configuration_file (new_scene fa file) = input_dir fa @ ''/'' @ file"
  "phantoms (new_scene fa file) = []"
  "params (new_scene fa file) = img_params fa"
  "output_dir (new_scene fa file) = out_dir fa"
  "label (new_scene fa file) = extract_index (input_dir fa @ ''/'' @ file)"
  by (simp_all add: new_scene_def PhantomScenario_init_def)

lemma analysis_loop_after_read:
  assumes "contains ''.json'' file"
    and "ReadPhantomsFromConfiguration ev (new_scene fa file) w = (Return (new_scene fa file), w1)"
  shows "analysis_loop ev fa (file # files) w =
     (if can_save ev (image_path (new_scene fa file))
      then analysis_loop ev fa files
             (w1\<lparr>saved := saved w1 @ [(image_path (new_scene fa file), new_image)]\<rparr>)
      else (SysExit, print OutputDirMissing w1))"
  using assms by (simp add: analyze_file_def GenerateImage_empty new_scene_simps)

section \<open>File-level and entry-level failures\<close>

text \<open>
  What loading does with the failures it handles, for a configuration file the batch
  does not skip: when the file does not exist, is text that is not JSON, or is an
  object without the key \<open>Phantoms\<close>, loading prints one diagnostic and returns with the
  scene unchanged, that is without phantoms; the loop then saves the blank image and
  goes on with the next file (or stops because the image cannot be saved). When the file
  is an object whose \<open>Phantoms\<close> list has an entry that lacks a required field, loading
  prints one line and calls \<open>sys.exit()\<close>: the loop ends there, no image is saved and no
  other file is processed.
\<close>

lemma loading_asymmetry:
  assumes cfg: "contains ''.json'' file"
  shows
   "(read_file ev (input_dir fa @ ''/'' @ file) = Absent \<longrightarrow>
       ReadPhantomsFromConfiguration ev (new_scene fa file) w =
         (Return (new_scene fa file), print (FileDoesNotExist (input_dir fa @ ''/'' @ file)) w) \<and>
       phantoms (new_scene fa file) = [] \<and>
       analysis_loop ev fa (file # files) w =
         (if can_save ev (image_path (new_scene fa file))
          then analysis_loop ev fa files
                 (print (FileDoesNotExist (input_dir fa @ ''/'' @ file)) w
                    \<lparr>saved := saved w @ [(image_path (new_scene fa file), new_image)]\<rparr>)
          else (SysExit,
                print OutputDirMissing (print (FileDoesNotExist (input_dir fa @ ''/'' @ file)) w)))) \<and>
    (read_file ev (input_dir fa @ ''/'' @ file) = NotJSON \<longrightarrow>
       ReadPhantomsFromConfiguration ev (new_scene fa file) w =
         (Return (new_scene fa file), print JSONDecodeFailed w) \<and>
       phantoms (new_scene fa file) = [] \<and>
       analysis_loop ev fa (file # files) w =
         (if can_save ev (image_path (new_scene fa file))
          then analysis_loop ev fa files
                 (print JSONDecodeFailed w
                    \<lparr>saved := saved w @ [(image_path (new_scene fa file), new_image)]\<rparr>)
          else (SysExit, print OutputDirMissing (print JSONDecodeFailed w)))) \<and>
    (read_file ev (input_dir fa @ ''/'' @ file) = Content (JObj items) \<and>
     map_of items ''Phantoms'' = None \<longrightarrow>
       ReadPhantomsFromConfiguration ev (new_scene fa file) w =
         (Return (new_scene fa file),
          print (PhantomsNotDefined (input_dir fa @ ''/'' @ file)) w) \<and>
       phantoms (new_scene fa file) = [] \<and>
       analysis_loop ev fa (file # files) w =
         (if can_save ev (image_path (new_scene fa file))
          then analysis_loop ev fa files
                 (print (PhantomsNotDefined (input_dir fa @ ''/'' @ file)) w
                    \<lparr>saved := saved w @ [(image_path (new_scene fa file), new_image)]\<rparr>)
          else (SysExit,
                print OutputDirMissing
                  (print (PhantomsNotDefined (input_dir fa @ ''/'' @ file)) w)))) \<and>
    (read_file ev (input_dir fa @ ''/'' @ file) = Content (JObj items) \<and>
     map_of items ''Phantoms'' = Some (JArr es) \<and>
     JObj kvs \<in> set es \<and> k \<in> set required_keys \<and> map_of kvs k = None \<longrightarrow>
       (\<exists>m. ReadPhantomsFromConfiguration ev (new_scene fa file) w = (SysExit, print m w) \<and>
            analysis_loop ev fa (file # files) w = (SysExit, print m w)))"
proof (intro conjI impI)
  assume a: "read_file ev (input_dir fa @ ''/'' @ file) = Absent"
  then show r: "ReadPhantomsFromConfiguration ev (new_scene fa file) w =
         (Return (new_scene fa file), print (FileDoesNotExist (input_dir fa @ ''/'' @ file)) w)"
    by (simp add: ReadPhantomsFromConfiguration_def new_scene_simps)
  show "analysis_loop ev fa (file # files) w =
         (if can_save ev (image_path (new_scene fa file))
          then analysis_loop ev fa files
                 (print (FileDoesNotExist (input_dir fa @ ''/'' @ file)) w
                    \<lparr>saved := saved w @ [(image_path (new_scene fa file), new_image)]\<rparr>)
          else (SysExit,
                print OutputDirMissing (print (FileDoesNotExist (input_dir fa @ ''/'' @ file)) w)))"
    unfolding analysis_loop_after_read [OF cfg r] by (simp add: print_def)
next
  assume a: "read_file ev (input_dir fa @ ''/'' @ file) = NotJSON"
  then show r: "ReadPhantomsFromConfiguration ev (new_scene fa file) w =
         (Return (new_scene fa file), print JSONDecodeFailed w)"
    by (simp add: ReadPhantomsFromConfiguration_def new_scene_simps)
  show "analysis_loop ev fa (file # files) w =
         (if can_save ev (image_path (new_scene fa file))
          then analysis_loop ev fa files
                 (print JSONDecodeFailed w
                    \<lparr>saved := saved w @ [(image_path (new_scene fa file), new_image)]\<rparr>)
          else (SysExit, print OutputDirMissing (print JSONDecodeFailed w)))"
    unfolding analysis_loop_after_read [OF cfg r] by (simp add: print_def)
next
  assume a: "read_file ev (input_dir fa @ ''/'' @ file) = Content (JObj items) \<and>
     map_of items ''Phantoms'' = None"
  then show r: "ReadPhantomsFromConfiguration ev (new_scene fa file) w =
         (Return (new_scene fa file),
          print (PhantomsNotDefined (input_dir fa @ ''/'' @ file)) w)"
    by (simp add: ReadPhantomsFromConfiguration_def new_scene_simps)
  show "analysis_loop ev fa (file # files) w =
         (if can_save ev (image_path (new_scene fa file))
          then analysis_loop ev fa files
                 (print (PhantomsNotDefined (input_dir fa @ ''/'' @ file)) w
                    \<lparr>saved := saved w @ [(image_path (new_scene fa file), new_image)]\<rparr>)
          else (SysExit,
                print OutputDirMissing
                  (print (PhantomsNotDefined (input_dir fa @ ''/'' @ file)) w)))"
    unfolding analysis_loop_after_read [OF cfg r] by (simp add: print_def)
next
  assume a: "read_file ev (input_dir fa @ ''/'' @ file) = Content (JObj items) \<and>
     map_of items ''Phantoms'' = Some (JArr es) \<and>
     JObj kvs \<in> set es \<and> k \<in> set required_keys \<and> map_of kvs k = None"
  then have rd: "ReadPhantomsFromConfiguration ev (new_scene fa file) w =
      read_loop 0 es (new_scene fa file) w"
    by (intro Read_array [where items = items]) (simp_all add: new_scene_simps)
  from a missing_key_entry [of k kvs]
  have "\<exists>p\<in>set es. \<exists>e. phantom_of_entry p = Inl e" by blast
  from read_loop_exits [OF this] obtain m where
    m: "read_loop 0 es (new_scene fa file) w = (SysExit, print m w)" by blast
  with rd have "ReadPhantomsFromConfiguration ev (new_scene fa file) w = (SysExit, print m w)"
    by simp
  moreover from this have "analysis_loop ev fa (file # files) w = (SysExit, print m w)"
    using cfg by (simp add: analyze_file_exit)
  ultimately show "\<exists>m. ReadPhantomsFromConfiguration ev (new_scene fa file) w = (SysExit, print m w) \<and>
            analysis_loop ev fa (file # files) w = (SysExit, print m w)" by blast
qed (simp_all add: new_scene_simps)


lemmas run_defs = example_env_def example_analyzer_def empty_world_def config_def
  analyze_file_def ReadPhantomsFromConfiguration_def new_scene_def PhantomScenario_init_def
  extract_index_def is_digit_def GenerateImage_def image_path_def print_def

lemma loading_asymmetry_example:
  "analysis_loop (example_env [''c_7.json''] Absent True) example_analyzer [''c_7.json'']
     empty_world =
     (Return (), \<lparr>stdout = [FileDoesNotExist ''in/c_7.json''],
                  saved = [(''out/Phantoms_7.png'', new_image)]\<rparr>) \<and>
   analysis_loop (example_env [''c_7.json''] NotJSON True) example_analyzer [''c_7.json'']
     empty_world =
     (Return (), \<lparr>stdout = [JSONDecodeFailed],
                  saved = [(''out/Phantoms_7.png'', new_image)]\<rparr>) \<and>
   analysis_loop (example_env [''c_7.json''] (Content (JObj [])) True) example_analyzer
     [''c_7.json''] empty_world =
     (Return (), \<lparr>stdout = [PhantomsNotDefined ''in/c_7.json''],
                  saved = [(''out/Phantoms_7.png'', new_image)]\<rparr>) \<and>
   analysis_loop
     (example_env [''c_7.json'', ''c_8.json'']
        (config [entry ''fat'' 1 2 3 4, JObj [(''name'', JStr ''p''), (''material'', JStr ''bone'')]])
        True)
     example_analyzer [''c_7.json'', ''c_8.json''] empty_world =
     (SysExit, \<lparr>stdout = [MissingKey 2 ''xPos''], saved = []\<rparr>)"
proof -
  have ok: "phantom_of_entry (entry ''fat'' 1 2 3 4) =
      Inr \<lparr>name = JStr ''p'', material = JStr ''fat'', xPos = JNum 1, yPos = JNum 2,
            zPos = JNum 0, xDir = JNum 0, yDir = JNum 0, zDir = JNum 1, radius = JNum 3,
            zsize = JNum 4, density = 46 / 95, opacity = 46 / 95\<rparr>"
    by (simp add: phantom_of_entry_def entry_def required_keys_def Phantom_init_def
        set_density_small)
  have bad: "phantom_of_entry (JObj [(''name'', JStr ''p''), (''material'', JStr ''bone'')]) =
      Inl (KeyError ''xPos'')"
    by (simp add: phantom_of_entry_def required_keys_def)
  have c: "contains ''.json'' ''c_7.json''" by simp
  note t = loading_asymmetry [OF c]
  have 1: "analysis_loop (example_env [''c_7.json''] Absent True) example_analyzer [''c_7.json'']
     empty_world =
     (Return (), \<lparr>stdout = [FileDoesNotExist ''in/c_7.json''],
                  saved = [(''out/Phantoms_7.png'', new_image)]\<rparr>)"
    using t [where ev = "example_env [''c_7.json''] Absent True" and fa = example_analyzer
        and w = empty_world and files = "[]"]
    by (simp add: run_defs)
  have 2: "analysis_loop (example_env [''c_7.json''] NotJSON True) example_analyzer [''c_7.json'']
     empty_world =
     (Return (), \<lparr>stdout = [JSONDecodeFailed],
                  saved = [(''out/Phantoms_7.png'', new_image)]\<rparr>)"
    using t [where ev = "example_env [''c_7.json''] NotJSON True" and fa = example_analyzer
        and w = empty_world and files = "[]"]
    by (simp add: run_defs)
  have 3: "analysis_loop (example_env [''c_7.json''] (Content (JObj [])) True) example_analyzer
     [''c_7.json''] empty_world =
     (Return (), \<lparr>stdout = [PhantomsNotDefined ''in/c_7.json''],
                  saved = [(''out/Phantoms_7.png'', new_image)]\<rparr>)"
    using t [where ev = "example_env [''c_7.json''] (Content (JObj [])) True"
        and fa = example_analyzer and w = empty_world and files = "[]" and items = "[]"]
    by (simp add: run_defs)
  have 4: "analysis_loop
     (example_env [''c_7.json'', ''c_8.json'']
        (config [entry ''fat'' 1 2 3 4, JObj [(''name'', JStr ''p''), (''material'', JStr ''bone'')]])
        True)
     example_analyzer [''c_7.json'', ''c_8.json''] empty_world =
     (SysExit, \<lparr>stdout = [MissingKey 2 ''xPos''], saved = []\<rparr>)"
    using t [where ev = "example_env [''c_7.json'', ''c_8.json'']
        (config [entry ''fat'' 1 2 3 4, JObj [(''name'', JStr ''p''), (''material'', JStr ''bone'')]])
        True" and fa = example_analyzer
        and items = "[(''Phantoms'', JArr [entry ''fat'' 1 2 3 4, JObj [(''name'', JStr ''p''), (''material'', JStr ''bone'')]])]"
        and es = "[entry ''fat'' 1 2 3 4, JObj [(''name'', JStr ''p''), (''material'', JStr ''bone'')]]"
        and kvs = "[(''name'', JStr ''p''), (''material'', JStr ''bone'')]" and k = "''xPos''"
        and w = empty_world and files = "[''c_8.json'']"]
    by (simp add: run_defs ok bad)
  from 1 2 3 4 show ?thesis by (simp only:)
qed

text \<open>
  C6. The claim holds for the failures above, but not for every file-level failure. A
  file whose JSON value is \<open>null\<close> (or a number, or \<open>true\<close>) has no key \<open>Phantoms\<close>, yet the
  test \<open>"Phantoms" not in data\<close>, which stands outside the \<open>try\<close>, raises \<open>TypeError\<close>;
  a file that is not text raises \<open>UnicodeDecodeError\<close>, which \<open>except
  json.JSONDecodeError\<close> does not catch. In both cases nothing is printed, no image is
  saved, the next file is not processed, and the exit status is 1. The empty list and
  the empty object, which lack the key as well, are logged and the batch goes on.
\<close>

theorem file_level_failure_uncaught:
  "main (example_env [''c_7.json'', ''c_8.json''] (Content JNull) True) ''in'' ''out'' =
     (Raise TypeError, empty_world) \<and>
   main (example_env [''c_7.json'', ''c_8.json''] (Content (JNum 5)) True) ''in'' ''out'' =
     (Raise TypeError, empty_world) \<and>
   main (example_env [''c_7.json'', ''c_8.json''] Undecodable True) ''in'' ''out'' =
     (Raise UnicodeDecodeError, empty_world) \<and>
   exit_status (Raise TypeError) = 1 \<and> exit_status (Raise UnicodeDecodeError) = 1 \<and>
   main (example_env [''c_7.json''] (Content (JArr [])) True) ''in'' ''out'' =
     (Return (), \<lparr>stdout = [PhantomsNotDefined ''in/c_7.json''],
                  saved = [(''out/Phantoms_7.png'', new_image)]\<rparr>) \<and>
   main (example_env [''c_7.json''] (Content (JObj [])) True) ''in'' ''out'' =
     (Return (), \<lparr>stdout = [PhantomsNotDefined ''in/c_7.json''],
                  saved = [(''out/Phantoms_7.png'', new_image)]\<rparr>)"
  by (simp add: main_def makeAnalysis_def run_defs)

section \<open>The exit status\<close>

lemma main_loop:
  "listdir ev i = Inr fs \<Longrightarrow>
   main ev i od =
     analysis_loop ev \<lparr>input_dir = i, out_dir = od, img_params = \<lparr>size_cm = 25, px = 512\<rparr>\<rparr>
       fs empty_world"
  by (simp add: main_def makeAnalysis_def)

lemma analyze_file_unwritable:
  assumes "ReadPhantomsFromConfiguration ev (new_scene fa file) w = (Return sc, w1)"
    and "draw_phantoms ev (params sc) new_image (phantoms sc) = Inr img"
    and "\<not> can_save ev (image_path sc)"
  shows "analyze_file ev fa file w = (SysExit, print OutputDirMissing w1)"
  using assms by (simp add: analyze_file_def GenerateImage_def)

lemma missing_field_exits:
  assumes "contains ''.json'' file"
    and "read_file ev (input_dir fa @ ''/'' @ file) = Content (JObj items)"
    and "map_of items ''Phantoms'' = Some (JArr es)"
    and "JObj kvs \<in> set es" and "k \<in> set required_keys" and "map_of kvs k = None"
  shows "\<exists>m. analysis_loop ev fa (file # files) w = (SysExit, print m w)"
proof -
  have "ReadPhantomsFromConfiguration ev (new_scene fa file) w =
      read_loop 0 es (new_scene fa file) w"
    using assms(2,3) by (intro Read_array [where items = items]) (simp_all add: new_scene_simps)
  moreover from assms(4) missing_key_entry [OF assms(5,6)]
  have "\<exists>p\<in>set es. \<exists>e. phantom_of_entry p = Inl e" by blast
  from read_loop_exits [OF this] obtain m where
    "read_loop 0 es (new_scene fa file) w = (SysExit, print m w)" by blast
  ultimately have "analyze_file ev fa file w = (SysExit, print m w)"
    by (simp add: analyze_file_exit)
  with assms(1) show ?thesis by auto
qed

text \<open>
  C5, amended. The script calls \<open>sys.exit()\<close> without an argument, so the exit status is
  0 on every path but an uncaught exception. Let the files listed before a point of the
  directory be skipped or processed to their end. If no file is left, the script ends
  with status 0. If the next file is a configuration whose \<open>Phantoms\<close> list has an entry
  that lacks a required field, or one that loads and draws but whose image cannot be
  saved, the script stops there, and its exit status is 0 as well.
\<close>

theorem exit_status_zero:
  assumes ls: "listdir ev i = Inr (pre @ rest)"
    and fa: "fa = \<lparr>input_dir = i, out_dir = od, img_params = \<lparr>size_cm = 25, px = 512\<rparr>\<rparr>"
    and ok: "\<forall>f\<in>set pre. contains ''.json'' f \<longrightarrow>
               (\<forall>w. \<exists>w'. analyze_file ev fa f w = (Return (), w'))"
  shows
   "(rest = [] \<longrightarrow>
       fst (main ev i od) = Return () \<and> exit_status (fst (main ev i od)) = 0) \<and>
    (rest = cfile # post \<and> contains ''.json'' cfile \<and>
     read_file ev (i @ ''/'' @ cfile) = Content (JObj items) \<and>
     map_of items ''Phantoms'' = Some (JArr es) \<and>
     JObj kvs \<in> set es \<and> k \<in> set required_keys \<and> map_of kvs k = None \<longrightarrow>
       fst (main ev i od) = SysExit \<and> exit_status (fst (main ev i od)) = 0) \<and>
    (rest = cfile # post \<and> contains ''.json'' cfile \<and>
     (\<forall>w. \<exists>sc w1 img.
        ReadPhantomsFromConfiguration ev (new_scene fa cfile) w = (Return sc, w1) \<and>
        draw_phantoms ev (params sc) new_image (phantoms sc) = Inr img \<and>
        \<not> can_save ev (image_path sc)) \<longrightarrow>
       fst (main ev i od) = SysExit \<and> exit_status (fst (main ev i od)) = 0)"
proof -
  from analysis_loop_prefix [OF ok] obtain w' where
    "analysis_loop ev fa (pre @ rest) empty_world = analysis_loop ev fa rest w'" by blast
  with main_loop [OF ls, of od] fa
  have run: "main ev i od = analysis_loop ev fa rest w'" by simp
  have 1: "fst (main ev i od) = Return () \<and> exit_status (fst (main ev i od)) = 0"
    if "rest = []"
    using run that by simp
  have 2: "fst (main ev i od) = SysExit \<and> exit_status (fst (main ev i od)) = 0"
    if a: "rest = cfile # post \<and> contains ''.json'' cfile \<and>
     read_file ev (i @ ''/'' @ cfile) = Content (JObj items) \<and>
     map_of items ''Phantoms'' = Some (JArr es) \<and>
     JObj kvs \<in> set es \<and> k \<in> set required_keys \<and> map_of kvs k = None"
  proof -
    from a fa have "read_file ev (input_dir fa @ ''/'' @ cfile) = Content (JObj items) \<and>
      map_of items ''Phantoms'' = Some (JArr es) \<and>
      JObj kvs \<in> set es \<and> k \<in> set required_keys \<and> map_of kvs k = None" by simp
    moreover from a have c: "contains ''.json'' cfile" by simp
    ultimately obtain m where
      "analysis_loop ev fa (cfile # post) w' = (SysExit, print m w')"
      using missing_field_exits [OF c, of ev fa items es kvs k post w'] by blast
    with run a show ?thesis by simp
  qed
  have 3: "fst (main ev i od) = SysExit \<and> exit_status (fst (main ev i od)) = 0"
    if a: "rest = cfile # post \<and> contains ''.json'' cfile \<and>
     (\<forall>w. \<exists>sc w1 img.
        ReadPhantomsFromConfiguration ev (new_scene fa cfile) w = (Return sc, w1) \<and>
        draw_phantoms ev (params sc) new_image (phantoms sc) = Inr img \<and>
        \<not> can_save ev (image_path sc))"
  proof -
    from a obtain sc w1 img where
      "ReadPhantomsFromConfiguration ev (new_scene fa cfile) w' = (Return sc, w1)"
      "draw_phantoms ev (params sc) new_image (phantoms sc) = Inr img"
      "\<not> can_save ev (image_path sc)" by blast
    from analyze_file_unwritable [OF this] a run show ?thesis by simp
  qed
  from 1 2 3 show ?thesis by blast
qed


lemma fat_entry:
  "phantom_of_entry (entry ''fat'' 1 2 3 4) =
      Inr \<lparr>name = JStr ''p'', material = JStr ''fat'', xPos = JNum 1, yPos = JNum 2,
            zPos = JNum 0, xDir = JNum 0, yDir = JNum 0, zDir = JNum 1, radius = JNum 3,
            zsize = JNum 4, density = 46 / 95, opacity = 46 / 95\<rparr>"
  by (simp add: phantom_of_entry_def entry_def required_keys_def Phantom_init_def
      set_density_small)

lemma nameless_entry:
  "phantom_of_entry (JObj [(''name'', JStr ''p'')]) = Inl (KeyError ''material'')"
  by (simp add: phantom_of_entry_def required_keys_def)

text \<open>
  C5, as the specification states it, fails: a configuration whose only entry has no
  \<open>material\<close>, and a run that cannot save its image, both end the process with exit
  status 0.
\<close>

theorem exit_status_counterexample:
  "main (example_env [''c_7.json''] (config [JObj [(''name'', JStr ''p'')]]) True) ''in'' ''out'' =
     (SysExit, \<lparr>stdout = [MissingKey 1 ''material''], saved = []\<rparr>) \<and>
   exit_status
     (fst (main (example_env [''c_7.json''] (config [JObj [(''name'', JStr ''p'')]]) True)
        ''in'' ''out'')) = 0 \<and>
   main (example_env [''c_7.json''] (config []) False) ''in'' ''out'' =
     (SysExit, \<lparr>stdout = [OutputDirMissing], saved = []\<rparr>) \<and>
   exit_status (fst (main (example_env [''c_7.json''] (config []) False) ''in'' ''out'')) = 0"
  by (simp add: main_def makeAnalysis_def run_defs nameless_entry)

theorem exit_status_zero_witness:
  "fst (main (example_env [''c_7.json''] (config [entry ''fat'' 1 2 3 4]) True) ''in'' ''out'') =
     Return () \<and>
   exit_status
     (fst (main (example_env [''c_7.json''] (config [entry ''fat'' 1 2 3 4]) True) ''in'' ''out'')) = 0 \<and>
   fst (main (example_env [''notes.txt'', ''c_7.json''] (config [entry ''fat'' 1 2 3 4, JObj []]) True)
          ''in'' ''out'') = SysExit \<and>
   exit_status
     (fst (main (example_env [''notes.txt'', ''c_7.json''] (config [entry ''fat'' 1 2 3 4, JObj []]) True)
          ''in'' ''out'')) = 0 \<and>
   fst (main (example_env [''notes.txt'', ''c_7.json''] (config [entry ''fat'' 1 2 3 4]) False)
          ''in'' ''out'') = SysExit \<and>
   exit_status
     (fst (main (example_env [''notes.txt'', ''c_7.json''] (config [entry ''fat'' 1 2 3 4]) False)
          ''in'' ''out'')) = 0"
proof -
  have fa: "example_analyzer =
      \<lparr>input_dir = ''in'', out_dir = ''out'', img_params = \<lparr>size_cm = 25, px = 512\<rparr>\<rparr>"
    by (simp add: example_analyzer_def)
  let ?E1 = "example_env [''c_7.json''] (config [entry ''fat'' 1 2 3 4]) True"
  have ls1: "listdir ?E1 ''in'' = Inr ([''c_7.json''] @ [])"
    by (simp add: example_env_def)
  have ok1: "\<forall>f\<in>set [''c_7.json'']. contains ''.json'' f \<longrightarrow>
      (\<forall>w. \<exists>w'. analyze_file ?E1 example_analyzer f w = (Return (), w'))"
    by (simp add: run_defs fat_entry pixel_circle_def scale_small)
  have 1: "fst (main ?E1 ''in'' ''out'') = Return () \<and>
      exit_status (fst (main ?E1 ''in'' ''out'')) = 0"
    using exit_status_zero [OF ls1 fa ok1] by simp
  let ?E2 = "example_env [''notes.txt'', ''c_7.json''] (config [entry ''fat'' 1 2 3 4, JObj []]) True"
  have ls2: "listdir ?E2 ''in'' = Inr ([''notes.txt''] @ [''c_7.json''])"
    by (simp add: example_env_def)
  have ok2: "\<forall>f\<in>set [''notes.txt'']. contains ''.json'' f \<longrightarrow>
      (\<forall>w. \<exists>w'. analyze_file ?E2 example_analyzer f w = (Return (), w'))"
    by simp
  have 2: "fst (main ?E2 ''in'' ''out'') = SysExit \<and>
      exit_status (fst (main ?E2 ''in'' ''out'')) = 0"
    using exit_status_zero [OF ls2 fa ok2, where cfile = "''c_7.json''" and post = "[]"
        and items = "[(''Phantoms'', JArr [entry ''fat'' 1 2 3 4, JObj []])]"
        and es = "[entry ''fat'' 1 2 3 4, JObj []]" and kvs = "[]" and k = "''name''"]
    by (simp add: example_env_def config_def required_keys_def)
  let ?E3 = "example_env [''notes.txt'', ''c_7.json''] (config [entry ''fat'' 1 2 3 4]) False"
  have ls3: "listdir ?E3 ''in'' = Inr ([''notes.txt''] @ [''c_7.json''])"
    by (simp add: example_env_def)
  have ok3: "\<forall>f\<in>set [''notes.txt'']. contains ''.json'' f \<longrightarrow>
      (\<forall>w. \<exists>w'. analyze_file ?E3 example_analyzer f w = (Return (), w'))"
    by simp
  have 3: "fst (main ?E3 ''in'' ''out'') = SysExit \<and>
      exit_status (fst (main ?E3 ''in'' ''out'')) = 0"
    using exit_status_zero [OF ls3 fa ok3, where cfile = "''c_7.json''" and post = "[]"]
    by (simp add: run_defs fat_entry pixel_circle_def scale_small)
  from 1 2 3 show ?thesis by blast
qed

section \<open>The order of drawing\<close>

lemma draw_phantoms_untouched:
  assumes "draw_phantoms ev prm img ps = Inr img'"
    and "\<forall>p\<in>set ps. \<forall>c. pixel_circle prm p = Inr c \<longrightarrow> \<not> covers ev (bounding_box c) q"
  shows "img' q = img q"
  using assms
proof (induction ps arbitrary: img)
  case Nil
  then show ?case by simp
next
  case (Cons p ps)
  from Cons.prems(1) obtain c where c: "pixel_circle prm p = Inr c"
    and rest: "draw_phantoms ev prm (ellipse ev (px prm) img (bounding_box c) (fill_intensity p)) ps = Inr img'"
    by (auto split: sum.splits)
  from Cons.prems(2) c have "\<not> covers ev (bounding_box c) q" by (cases c) auto
  moreover from Cons.prems(2)
  have "img' q = ellipse ev (px prm) img (bounding_box c) (fill_intensity p) q"
    by (intro Cons.IH [OF rest]) simp
  ultimately show ?case by (simp add: ellipse_def)
qed

lemma draw_phantoms_last:
  assumes "draw_phantoms ev prm img ps = Inr img'"
    and "fst q < px prm" and "snd q < px prm"
    and "j < length ps"
    and "pixel_circle prm (ps ! j) = Inr c" and "covers ev (bounding_box c) q"
    and "\<forall>k. j < k \<and> k < length ps \<longrightarrow>
           (\<forall>c'. pixel_circle prm (ps ! k) = Inr c' \<longrightarrow> \<not> covers ev (bounding_box c') q)"
  shows "img' q = ink ev (fill_intensity (ps ! j))"
  using assms
proof (induction ps arbitrary: img j)
  case Nil
  then show ?case by simp
next
  case (Cons p ps)
  from Cons.prems(1) obtain c0 where c0: "pixel_circle prm p = Inr c0"
    and rest: "draw_phantoms ev prm (ellipse ev (px prm) img (bounding_box c0) (fill_intensity p)) ps = Inr img'"
    by (auto split: sum.splits)
  show ?case
  proof (cases j)
    case 0
    have "\<forall>p'\<in>set ps. \<forall>c'. pixel_circle prm p' = Inr c' \<longrightarrow> \<not> covers ev (bounding_box c') q"
    proof (intro ballI allI impI)
      fix p' c' assume "p' \<in> set ps" and pc: "pixel_circle prm p' = Inr c'"
      then obtain k where "k < length ps" "ps ! k = p'" by (auto simp: in_set_conv_nth)
      with Cons.prems(7) [rule_format, of "Suc k"] 0 pc
      show "\<not> covers ev (bounding_box c') q" by simp
    qed
    from draw_phantoms_untouched [OF rest this]
    show ?thesis using 0 Cons.prems(2,3,5,6) c0 by (simp add: ellipse_def)
  next
    case (Suc j')
    have "img' q = ink ev (fill_intensity (ps ! j'))"
    proof (rule Cons.IH [OF rest Cons.prems(2,3)])
      show "j' < length ps" using Cons.prems(4) Suc by simp
      show "pixel_circle prm (ps ! j') = Inr c" using Cons.prems(5) Suc by simp
      show "covers ev (bounding_box c) q" by (rule Cons.prems(6))
      show "\<forall>k. j' < k \<and> k < length ps \<longrightarrow>
           (\<forall>c'. pixel_circle prm (ps ! k) = Inr c' \<longrightarrow> \<not> covers ev (bounding_box c') q)"
      proof (intro allI impI)
        fix k c' assume "j' < k \<and> k < length ps" "pixel_circle prm (ps ! k) = Inr c'"
        with Cons.prems(7) [rule_format, of "Suc k" c'] Suc
        show "\<not> covers ev (bounding_box c') q" by simp
      qed
    qed
    with Suc show ?thesis by simp
  qed
qed

lemma map_err_nth:
  "map_err f xs = Inr ys \<Longrightarrow> length ys = length xs \<and> (\<forall>k<length xs. f (xs ! k) = Inr (ys ! k))"
proof (induction xs arbitrary: ys)
  case Nil
  then show ?case by simp
next
  case (Cons x xs)
  then obtain y ys' where "f x = Inr y" "map_err f xs = Inr ys'" "ys = y # ys'"
    by (auto split: sum.splits)
  with Cons.IH [of ys'] show ?case by (auto simp: nth_Cons split: nat.splits)
qed

text \<open>
  C8. When the entries \<open>es\<close> of a configuration are loaded into a new scene, the scene
  holds one phantom for each entry, in the order of the entries. When the scene is then
  drawn, a pixel of the image that the phantom of entry \<open>j\<close> covers and that no phantom of
  a later entry covers has the colour of phantom \<open>j\<close>, whatever the phantoms of earlier
  entries are: the later phantom hides the earlier ones, and nothing is blended.
\<close>

theorem later_phantom_occludes:
  assumes rd: "read_loop i es (new_scene fa cfile) w = (Return sc, w')"
    and dr: "draw_phantoms ev (params sc) new_image (phantoms sc) = Inr img"
    and q: "fst q < px (params sc)" "snd q < px (params sc)"
    and j: "j < length es"
    and cov: "pixel_circle (params sc) (phantoms sc ! j) = Inr c" "covers ev (bounding_box c) q"
    and later: "\<forall>k. j < k \<and> k < length es \<longrightarrow>
       (\<forall>c'. pixel_circle (params sc) (phantoms sc ! k) = Inr c' \<longrightarrow>
          \<not> covers ev (bounding_box c') q)"
  shows "length (phantoms sc) = length es \<and>
    (\<forall>k<length es. phantom_of_entry (es ! k) = Inr (phantoms sc ! k)) \<and>
    img q = ink ev (fill_intensity (phantoms sc ! j))"
proof -
  from read_loop_Return [OF rd] obtain phs where
    phs: "map_err phantom_of_entry es = Inr phs"
    and sc: "sc = new_scene fa cfile\<lparr>phantoms := phantoms (new_scene fa cfile) @ phs\<rparr>"
    by blast
  from sc have eq: "phantoms sc = phs" by (simp add: new_scene_simps)
  from map_err_nth [OF phs] eq
  have ord: "length (phantoms sc) = length es \<and>
    (\<forall>k<length es. phantom_of_entry (es ! k) = Inr (phantoms sc ! k))" by simp
  then have len: "length (phantoms sc) = length es" by simp
  have "img q = ink ev (fill_intensity (phantoms sc ! j))"
    using draw_phantoms_last [OF dr q _ cov] j later len by simp
  with ord show ?thesis by simp
qed


theorem later_phantom_occludes_witness:
  "\<exists>sc img.
     read_loop 0 [entry ''fat'' 0 0 5 10, entry ''bone'' 1 0 2 10]
       (new_scene example_analyzer ''c_7.json'') empty_world = (Return sc, empty_world) \<and>
     draw_phantoms (example_env [''c_7.json''] Absent True) (params sc) new_image (phantoms sc) =
       Inr img \<and>
     map fill_intensity (phantoms sc) = [131, 0] \<and>
     img (256, 256) = 0"
proof -
  let ?P1 = "\<lparr>name = JStr ''p'', material = JStr ''fat'', xPos = JNum 0, yPos = JNum 0,
            zPos = JNum 0, xDir = JNum 0, yDir = JNum 0, zDir = JNum 1, radius = JNum 5,
            zsize = JNum 10, density = 46 / 95, opacity = 46 / 95\<rparr>"
  let ?P2 = "\<lparr>name = JStr ''p'', material = JStr ''bone'', xPos = JNum 1, yPos = JNum 0,
            zPos = JNum 0, xDir = JNum 0, yDir = JNum 0, zDir = JNum 1, radius = JNum 2,
            zsize = JNum 10, density = 1, opacity = 1\<rparr>"
  let ?E = "example_env [''c_7.json''] Absent True"
  let ?S = "new_scene example_analyzer ''c_7.json''"
  let ?sc = "?S\<lparr>phantoms := phantoms ?S @ [?P1, ?P2]\<rparr>"
  have ps: "phantoms ?sc = [?P1, ?P2]" by (simp add: new_scene_simps)
  have prm: "params ?sc = \<lparr>size_cm = 25, px = 512\<rparr>"
    by (simp add: new_scene_simps example_analyzer_def)
  have "map_err phantom_of_entry [entry ''fat'' 0 0 5 10, entry ''bone'' 1 0 2 10] =
      Inr [?P1, ?P2]"
    by (simp add: phantom_of_entry_def entry_def required_keys_def Phantom_init_def
        set_density_small)
  then have rd: "read_loop 0 [entry ''fat'' 0 0 5 10, entry ''bone'' 1 0 2 10] ?S empty_world =
      (Return ?sc, empty_world)"
    by (rule read_loop_all_ok)
  have c1: "pixel_circle \<lparr>size_cm = 25, px = 512\<rparr> ?P1 = Inr (256, 256, 512 / 5)"
    by (simp add: pixel_circle_def scale_small)
  have c2: "pixel_circle \<lparr>size_cm = 25, px = 512\<rparr> ?P2 = Inr (256 + 512 / 25, 256, 1024 / 25)"
    by (simp add: pixel_circle_def scale_small)
  obtain img where dr: "draw_phantoms ?E (params ?sc) new_image (phantoms ?sc) = Inr img"
    unfolding ps prm by (simp add: c1 c2)
  have cov: "covers ?E (bounding_box (256 + 512 / 25, 256, 1024 / 25)) (256, 256)"
    by (simp add: example_env_def disk_def bounding_box_def power2_eq_square)
  have "length (phantoms ?sc) = length [entry ''fat'' 0 0 5 10, entry ''bone'' 1 0 2 10] \<and>
    (\<forall>k<length [entry ''fat'' 0 0 5 10, entry ''bone'' 1 0 2 10].
        phantom_of_entry ([entry ''fat'' 0 0 5 10, entry ''bone'' 1 0 2 10] ! k) =
          Inr (phantoms ?sc ! k)) \<and>
    img (256, 256) = ink ?E (fill_intensity (phantoms ?sc ! 1))"
  proof (rule later_phantom_occludes [OF rd dr, where c = "(256 + 512 / 25, 256, 1024 / 25)"])
    show "pixel_circle (params ?sc) (phantoms ?sc ! 1) = Inr (256 + 512 / 25, 256, 1024 / 25)"
      unfolding ps prm using c2 by simp
    show "covers ?E (bounding_box (256 + 512 / 25, 256, 1024 / 25)) (256, 256)" by (rule cov)
    show "\<forall>k. 1 < k \<and> k < length [entry ''fat'' 0 0 5 10, entry ''bone'' 1 0 2 10] \<longrightarrow>
       (\<forall>c'. pixel_circle (params ?sc) (phantoms ?sc ! k) = Inr c' \<longrightarrow>
          \<not> covers ?E (bounding_box c') (256, 256))"
    proof (intro allI impI)
      fix k :: nat and c'
      assume "1 < k \<and> k < length [entry ''fat'' 0 0 5 10, entry ''bone'' 1 0 2 10]"
      then have False by auto
      then show "\<not> covers ?E (bounding_box c') (256, 256)" ..
    qed
  qed (simp_all add: prm)
  then have f1: "img (256, 256) = 0"
    unfolding ps by (simp add: example_env_def fill_intensity_def py_int_def)
  have f2: "map fill_intensity (phantoms ?sc) = [131, 0]"
    unfolding ps by (simp add: fill_intensity_def py_int_def)
  show ?thesis
    by (rule exI [of _ ?sc], rule exI [of _ img]) (intro conjI rd dr f1 f2)
qed

section \<open>Fields that the drawing does not read\<close>

lemma Phantom_init_hidden:
  "rel_sum (=) same_drawn (Phantom_init nm mt xp yp zp xd yd zd rd zs)
     (Phantom_init nm' mt xp yp zp' xd' yd' zd' rd zs)"
  by (cases "set_density mt zs") (auto simp: Phantom_init_def same_drawn_def)

lemma map_err_related:
  assumes "\<forall>k\<in>set ks. rel_sum (=) (R k) (f k) (g k)"
  shows "(\<exists>e. map_err f ks = Inl e \<and> map_err g ks = Inl e) \<or>
    (\<exists>vs vs'. map_err f ks = Inr vs \<and> map_err g ks = Inr vs' \<and>
       length vs = length ks \<and> length vs' = length ks \<and>
       (\<forall>i<length ks. R (ks ! i) (vs ! i) (vs' ! i)))"
  using assms
proof (induction ks)
  case Nil
  then show ?case by simp
next
  case (Cons k ks)
  from Cons.prems have hd: "rel_sum (=) (R k) (f k) (g k)" by simp
  from Cons.prems have tl: "\<forall>k\<in>set ks. rel_sum (=) (R k) (f k) (g k)" by simp
  show ?case
  proof (cases "f k")
    case (Inl e)
    with hd have "g k = Inl e" by (cases "g k") simp_all
    with Inl show ?thesis by simp
  next
    case (Inr v)
    with hd obtain v' where g: "g k = Inr v'" and r: "R k v v'" by (cases "g k") simp_all
    from Cons.IH [OF tl] show ?thesis
    proof
      assume "\<exists>e. map_err f ks = Inl e \<and> map_err g ks = Inl e"
      with Inr g show ?thesis by auto
    next
      assume "\<exists>vs vs'. map_err f ks = Inr vs \<and> map_err g ks = Inr vs' \<and>
       length vs = length ks \<and> length vs' = length ks \<and>
       (\<forall>i<length ks. R (ks ! i) (vs ! i) (vs' ! i))"
      then obtain vs vs' where a: "map_err f ks = Inr vs" "map_err g ks = Inr vs'"
        "length vs = length ks" "length vs' = length ks"
        "\<forall>i<length ks. R (ks ! i) (vs ! i) (vs' ! i)" by blast
      have "\<forall>i<length (k # ks). R ((k # ks) ! i) ((v # vs) ! i) ((v' # vs') ! i)"
        using a(5) r by (auto simp: nth_Cons split: nat.splits)
      with a Inr g show ?thesis by simp
    qed
  qed
qed

lemma build_ten:
  assumes "length vs = 10"
  shows "build vs = Phantom_init (vs ! 0) (vs ! 1) (vs ! 2) (vs ! 3) (vs ! 4) (vs ! 5)
     (vs ! 6) (vs ! 7) (vs ! 8) (vs ! 9)"
proof -
  from assms obtain a b c d e f g h i j where "vs = [a, b, c, d, e, f, g, h, i, j]"
    by (auto simp: numeral_eq_Suc length_Suc_conv)
  then show ?thesis by simp
qed


lemma getitem_shape:
  "(\<exists>kvs. e = JObj kvs) \<or> (\<forall>k. getitem e k = Inl TypeError)"
  by (cases e) simp_all

lemma getitem_JObj_not_TypeError: "getitem (JObj kvs) k \<noteq> Inl TypeError"
  by (simp split: option.splits)

lemma getitem_hidden:
  assumes "getitem e ''material'' = getitem e' ''material''"
    and "isl (getitem e k) = isl (getitem e' k)"
  shows "rel_sum (=) (\<lambda>v v'. True) (getitem e k) (getitem e' k)"
proof -
  from getitem_shape [of e] getitem_shape [of e'] consider
    (objs) kvs kvs' where "e = JObj kvs" "e' = JObj kvs'"
    | (none) "\<forall>k. getitem e k = Inl TypeError" "\<forall>k. getitem e' k = Inl TypeError"
    | (left) kvs where "e = JObj kvs" "\<forall>k. getitem e' k = Inl TypeError"
    | (right) kvs' where "e' = JObj kvs'" "\<forall>k. getitem e k = Inl TypeError"
    by blast
  then show ?thesis
  proof cases
    case objs
    with assms(2) show ?thesis by (auto split: option.splits)
  next
    case none
    then show ?thesis by simp
  next
    case left
    with assms(1) getitem_JObj_not_TypeError [of kvs "''material''"] show ?thesis by simp
  next
    case right
    with assms(1) getitem_JObj_not_TypeError [of kvs' "''material''"] show ?thesis by simp
  qed
qed

lemma rel_sum_same: "x = y \<Longrightarrow> rel_sum (=) (=) x y"
  by (simp add: sum.rel_eq)

lemma phantom_of_entry_hidden:
  assumes "differ_only_hidden e e'"
  shows "rel_sum (=) same_drawn (phantom_of_entry e) (phantom_of_entry e')"
proof -
  let ?R = "\<lambda>k v v'. k \<in> set [''material'', ''xPos'', ''yPos'', ''radius'', ''zsize''] \<longrightarrow> v = v'"
  from assms have vis: "getitem e ''material'' = getitem e' ''material''"
    "getitem e ''xPos'' = getitem e' ''xPos''" "getitem e ''yPos'' = getitem e' ''yPos''"
    "getitem e ''radius'' = getitem e' ''radius''" "getitem e ''zsize'' = getitem e' ''zsize''"
    and hid: "isl (getitem e ''name'') = isl (getitem e' ''name'')"
    "isl (getitem e ''zPos'') = isl (getitem e' ''zPos'')"
    "isl (getitem e ''xDir'') = isl (getitem e' ''xDir'')"
    "isl (getitem e ''yDir'') = isl (getitem e' ''yDir'')"
    "isl (getitem e ''zDir'') = isl (getitem e' ''zDir'')"
    by (simp_all add: differ_only_hidden_def)
  note free = hid [THEN getitem_hidden [OF vis(1)]]
  have "list_all (\<lambda>k. rel_sum (=) (?R k) (getitem e k) (getitem e' k)) required_keys"
    unfolding required_keys_def
    by (simp add: vis [THEN rel_sum_same] free del: rel_sum_simps)
  then have "\<forall>k\<in>set required_keys. rel_sum (=) (?R k) (getitem e k) (getitem e' k)"
    unfolding list_all_iff .
  from map_err_related [OF this] show ?thesis
  proof
    assume "\<exists>err. map_err (getitem e) required_keys = Inl err \<and>
      map_err (getitem e') required_keys = Inl err"
    then show ?thesis by (auto simp: phantom_of_entry_def)
  next
    assume "\<exists>vs vs'. map_err (getitem e) required_keys = Inr vs \<and>
       map_err (getitem e') required_keys = Inr vs' \<and>
       length vs = length required_keys \<and> length vs' = length required_keys \<and>
       (\<forall>i<length required_keys. ?R (required_keys ! i) (vs ! i) (vs' ! i))"
    then obtain vs vs' where m: "map_err (getitem e) required_keys = Inr vs"
      "map_err (getitem e') required_keys = Inr vs'"
      and len: "length vs = 10" "length vs' = 10"
      and r: "\<forall>i<length required_keys. ?R (required_keys ! i) (vs ! i) (vs' ! i)"
      by (auto simp: required_keys_def)
    have "vs ! 1 = vs' ! 1" using r [rule_format, of 1] by (simp add: required_keys_def)
    moreover have "vs ! 2 = vs' ! 2" using r [rule_format, of 2] by (simp add: required_keys_def)
    moreover have "vs ! 3 = vs' ! 3" using r [rule_format, of 3] by (simp add: required_keys_def)
    moreover have "vs ! 8 = vs' ! 8" using r [rule_format, of 8] by (simp add: required_keys_def)
    moreover have "vs ! 9 = vs' ! 9" using r [rule_format, of 9] by (simp add: required_keys_def)
    ultimately show ?thesis
      using Phantom_init_hidden [of "vs ! 0" "vs' ! 1" "vs' ! 2" "vs' ! 3" "vs ! 4" "vs ! 5"
          "vs ! 6" "vs ! 7" "vs' ! 8" "vs' ! 9" "vs' ! 0" "vs' ! 4" "vs' ! 5" "vs' ! 6" "vs' ! 7"]
      by (simp add: phantom_of_entry_def m build_ten [OF len(1)] build_ten [OF len(2)])
  qed
qed


lemma read_loop_hidden:
  assumes "list_all2 differ_only_hidden es es'"
    and "list_all2 same_drawn (phantoms sc) (phantoms sc')"
    and "sc' = sc\<lparr>phantoms := phantoms sc'\<rparr>"
  shows "(\<exists>w1. read_loop i es sc w = (SysExit, w1) \<and> read_loop i es' sc' w = (SysExit, w1)) \<or>
    (\<exists>s s'. read_loop i es sc w = (Return s, w) \<and> read_loop i es' sc' w = (Return s', w) \<and>
       list_all2 same_drawn (phantoms s) (phantoms s') \<and> s' = s\<lparr>phantoms := phantoms s'\<rparr>)"
  using assms
proof (induction es es' arbitrary: i sc sc' rule: list_all2_induct)
  case Nil
  then show ?case by simp
next
  case (Cons e es e' es')
  from phantom_of_entry_hidden [OF Cons.hyps(1)]
  have rel: "rel_sum (=) same_drawn (phantom_of_entry e) (phantom_of_entry e')" .
  show ?case
  proof (cases "phantom_of_entry e")
    case (Inl err)
    with rel have e': "phantom_of_entry e' = Inl err" by (cases "phantom_of_entry e'") simp_all
    let ?w1 = "print (case err of KeyError k \<Rightarrow> MissingKey (i + 1) k
                      | _ \<Rightarrow> PhantomError (i + 1) err) w"
    have 1: "read_loop i (e # es) sc w = (SysExit, ?w1)" by (rule read_loop_error [OF Inl])
    have 2: "read_loop i (e' # es') sc' w = (SysExit, ?w1)" by (rule read_loop_error [OF e'])
    from 1 2 show ?thesis by blast
  next
    case (Inr ph)
    with rel obtain ph' where ph': "phantom_of_entry e' = Inr ph'" and sd: "same_drawn ph ph'"
      by (cases "phantom_of_entry e'") simp_all
    let ?s = "sc\<lparr>phantoms := phantoms sc @ [ph]\<rparr>"
    let ?s' = "sc'\<lparr>phantoms := phantoms sc' @ [ph']\<rparr>"
    have a: "list_all2 same_drawn (phantoms ?s) (phantoms ?s')"
      using Cons.prems(1) sd by (simp add: list_all2_appendI)
    have b: "?s' = ?s\<lparr>phantoms := phantoms ?s'\<rparr>"
      by (subst Cons.prems(2)) simp
    from Cons.IH [OF a b, of "i + 1"] Inr ph' show ?thesis by simp
  qed
qed

lemma same_drawn_shape:
  "same_drawn p p' \<Longrightarrow> pixel_circle prm p = pixel_circle prm p' \<and> fill_intensity p = fill_intensity p'"
  by (simp add: same_drawn_def pixel_circle_def fill_intensity_def)

lemma draw_phantoms_same:
  "list_all2 same_drawn ps ps' \<Longrightarrow> draw_phantoms ev prm img ps = draw_phantoms ev prm img ps'"
proof (induction ps ps' arbitrary: img rule: list_all2_induct)
  case Nil
  then show ?case by simp
next
  case (Cons p ps p' ps')
  from same_drawn_shape [OF Cons.hyps(1), of prm] Cons.IH show ?case
    by (simp split: sum.splits)
qed

lemma env_read_file_update:
  "covers (ev\<lparr>read_file := rf\<rparr>) = covers ev"
  "ink (ev\<lparr>read_file := rf\<rparr>) = ink ev"
  "can_save (ev\<lparr>read_file := rf\<rparr>) = can_save ev"
  by (cases ev, simp)+

lemma ellipse_read_file: "ellipse (ev\<lparr>read_file := rf\<rparr>) n img b fill = ellipse ev n img b fill"
  unfolding ellipse_def env_read_file_update ..

lemma draw_phantoms_read_file:
  "draw_phantoms (ev\<lparr>read_file := rf\<rparr>) prm img ps = draw_phantoms ev prm img ps"
  by (induction ps arbitrary: img) (simp_all add: ellipse_read_file split: sum.splits)

lemma GenerateImage_same:
  assumes "list_all2 same_drawn (phantoms s) (phantoms s')"
    and "s' = s\<lparr>phantoms := phantoms s'\<rparr>"
  shows "GenerateImage (ev\<lparr>read_file := rf\<rparr>) s' w = GenerateImage ev s w"
proof -
  have "params s' = params s" by (subst assms(2)) simp
  moreover have "output_dir s' = output_dir s" by (subst assms(2)) simp
  moreover have "label s' = label s" by (subst assms(2)) simp
  ultimately have "params s' = params s" "image_path s' = image_path s"
    by (simp_all add: image_path_def)
  then show ?thesis
    using draw_phantoms_same [OF assms(1)]
    by (simp add: GenerateImage_def draw_phantoms_read_file env_read_file_update
        split: sum.splits)
qed


text \<open>
  C9. Take two configurations of the same file whose \<open>Phantoms\<close> lists have the same
  length and whose entries, one by one, agree on the material, \<open>xPos\<close>, \<open>yPos\<close>,
  \<open>radius\<close> and \<open>zsize\<close>, whatever their \<open>zPos\<close>, \<open>xDir\<close>, \<open>yDir\<close>, \<open>zDir\<close> and names are.
  Processing the file gives the same result for both: the same lines printed, the same
  way of ending, and the same image, pixel for pixel, saved under the same path.
\<close>

theorem hidden_fields_do_not_matter:
  assumes "list_all2 differ_only_hidden es es'"
    and "read_file ev (input_dir fa @ ''/'' @ cfile) = Content (JObj items)"
    and "map_of items ''Phantoms'' = Some (JArr es)"
    and "rf (input_dir fa @ ''/'' @ cfile) = Content (JObj items')"
    and "map_of items' ''Phantoms'' = Some (JArr es')"
  shows "analyze_file (ev\<lparr>read_file := rf\<rparr>) fa cfile w = analyze_file ev fa cfile w"
proof -
  let ?sc = "new_scene fa cfile"
  have r: "ReadPhantomsFromConfiguration ev ?sc w = read_loop 0 es ?sc w"
    using assms(2,3) by (intro Read_array [where items = items]) (simp_all add: new_scene_simps)
  have r': "ReadPhantomsFromConfiguration (ev\<lparr>read_file := rf\<rparr>) ?sc w = read_loop 0 es' ?sc w"
    using assms(4,5) by (intro Read_array [where items = items']) (simp_all add: new_scene_simps)
  have "list_all2 same_drawn (phantoms ?sc) (phantoms ?sc)" by (simp add: new_scene_simps)
  moreover have "?sc = ?sc\<lparr>phantoms := phantoms ?sc\<rparr>" by simp
  ultimately consider
    (exit) w1 where "read_loop 0 es ?sc w = (SysExit, w1)" "read_loop 0 es' ?sc w = (SysExit, w1)"
    | (ret) s s' where "read_loop 0 es ?sc w = (Return s, w)" "read_loop 0 es' ?sc w = (Return s', w)"
        "list_all2 same_drawn (phantoms s) (phantoms s')" "s' = s\<lparr>phantoms := phantoms s'\<rparr>"
    using read_loop_hidden [OF assms(1), of ?sc ?sc 0 w] by blast
  then show ?thesis
  proof cases
    case exit
    with r r' show ?thesis by (simp add: analyze_file_def)
  next
    case ret
    with r r' GenerateImage_same [OF ret(3,4), where ev = ev and rf = rf and w = w] show ?thesis
      by (simp add: analyze_file_def)
  qed
qed


theorem hidden_fields_do_not_matter_witness:
  "analyze_file
     (example_env [''c_7.json''] (config [entry ''fat'' 1 2 3 4]) True
        \<lparr>read_file := \<lambda>f. config
           [JObj [(''name'', JStr ''q''), (''material'', JStr ''fat''), (''xPos'', JNum 1),
                  (''yPos'', JNum 2), (''zPos'', JNum 7), (''xDir'', JNum 1), (''yDir'', JNum 0),
                  (''zDir'', JNum 0), (''radius'', JNum 3), (''zsize'', JNum 4)]]\<rparr>)
     example_analyzer ''c_7.json'' empty_world =
   analyze_file (example_env [''c_7.json''] (config [entry ''fat'' 1 2 3 4]) True)
     example_analyzer ''c_7.json'' empty_world"
proof (rule hidden_fields_do_not_matter
    [where es = "[entry ''fat'' 1 2 3 4]" and items = "[(''Phantoms'', JArr [entry ''fat'' 1 2 3 4])]"
      and items' = "[(''Phantoms'', JArr
         [JObj [(''name'', JStr ''q''), (''material'', JStr ''fat''), (''xPos'', JNum 1),
            (''yPos'', JNum 2), (''zPos'', JNum 7), (''xDir'', JNum 1), (''yDir'', JNum 0),
            (''zDir'', JNum 0), (''radius'', JNum 3), (''zsize'', JNum 4)]])]"])
  show "list_all2 differ_only_hidden [entry ''fat'' 1 2 3 4]
     [JObj [(''name'', JStr ''q''), (''material'', JStr ''fat''), (''xPos'', JNum 1),
            (''yPos'', JNum 2), (''zPos'', JNum 7), (''xDir'', JNum 1), (''yDir'', JNum 0),
            (''zDir'', JNum 0), (''radius'', JNum 3), (''zsize'', JNum 4)]]"
    by (simp add: differ_only_hidden_def entry_def)
qed (simp_all add: example_env_def config_def)

section \<open>The label of the image\<close>

lemma extract_index_first_run:
  assumes "\<forall>c\<in>set pre. \<not> is_digit c" and "ds \<noteq> []" and "\<forall>c\<in>set ds. is_digit c"
    and "rest = [] \<or> \<not> is_digit (hd rest)"
  shows "extract_index (pre @ ds @ rest) = Digits ds"
proof -
  from assms(2,3) have "is_digit (hd ds)" by (cases ds) simp_all
  with assms(1,2) have "dropWhile (\<lambda>c. \<not> is_digit c) (pre @ ds @ rest) = ds @ rest"
    by (cases ds) (simp_all add: dropWhile_append)
  moreover from assms(3,4) have "takeWhile is_digit (ds @ rest) = ds"
    by (cases rest) (simp_all add: takeWhile_append)
  ultimately show ?thesis using assms(2) by (simp add: extract_index_def)
qed

lemma extract_index_no_digit:
  assumes "\<forall>c\<in>set nm. \<not> is_digit c"
  shows "str_label (extract_index nm) = ''0''"
proof -
  from assms have h: "dropWhile (\<lambda>c. \<not> is_digit c) nm = []" by simp
  show ?thesis unfolding extract_index_def h by simp
qed

text \<open>
  C4. \<open>extract_index\<close> returns the first run of digits of the string it is given, with
  its leading zeros, and the label is \<open>0\<close> when there is none (the two lemmas above). The
  batch driver gives it the path \<open>input_dir + '/' + file\<close>, not the name of the file: in
  the directory \<open>data2\<close> the file \<open>scan_042.json\<close> gets the label \<open>2\<close>, as every other
  file of the directory does, and the second image overwrites the first. With the
  directory \<open>.\<close> the labels are \<open>042\<close>, and \<open>0\<close> for a name without digits.
\<close>

theorem label_taken_from_directory:
  "extract_index ''scan_042.json'' = Digits ''042'' \<and>
   label (new_scene \<lparr>input_dir = ''data2'', out_dir = ''out'',
            img_params = \<lparr>size_cm = 25, px = 512\<rparr>\<rparr> ''scan_042.json'') = Digits ''2'' \<and>
   map fst (saved (snd (main (example_env [''scan_042.json'', ''scan_043.json''] (config []) True)
      ''data2'' ''out''))) = [''out/Phantoms_2.png'', ''out/Phantoms_2.png''] \<and>
   map fst (saved (snd (main (example_env [''scan_042.json'', ''scan.json''] (config []) True)
      ''.'' ''out''))) = [''out/Phantoms_042.png'', ''out/Phantoms_0.png'']"
  by (simp add: main_def makeAnalysis_def run_defs)

section \<open>Opacity and density in binary64\<close>

lemma binade_eq:
  assumes "2 powr real_of_int e \<le> \<bar>x\<bar>" and "\<bar>x\<bar> < 2 powr real_of_int (e + 1)"
    and "- 1022 \<le> e"
  shows "binade x = e"
proof -
  have "0 < \<bar>x\<bar>" using assms(1) by (smt (verit) powr_gt_zero)
  then have "\<lfloor>log 2 \<bar>x\<bar>\<rfloor> = e"
    using assms(1,2) by (subst floor_log_eq_powr_iff) simp_all
  with assms(3) show ?thesis by (simp add: binade_def)
qed

lemma two_powr_diff: "2 powr (real n - 52) = 2 ^ n / 2 ^ 52"
proof -
  have "2 powr (real n - 52) = 2 powr real n / 2 powr 52" by (rule powr_diff)
  also have "\<dots> = 2 ^ n / 2 ^ 52" by (simp add: powr_realpow)
  finally show ?thesis .
qed

lemma two_powr_neg: "2 powr (- real n) = 1 / 2 ^ n"
  by (simp add: powr_minus powr_realpow inverse_eq_divide)

lemma two_powr_neg_diff: "2 powr (- real n - 52) = 1 / (2 ^ 52 * 2 ^ n)"
proof -
  have "2 powr (- real n - 52) = 2 powr (- real n) / 2 powr 52" by (rule powr_diff)
  also have "\<dots> = 1 / (2 ^ 52 * 2 ^ n)" by (simp add: two_powr_neg)
  finally show ?thesis .
qed

lemma to_double_up:
  fixes n :: nat
  assumes "2 ^ n \<le> \<bar>x\<bar>" and "\<bar>x\<bar> < 2 * 2 ^ n" and "\<bar>x\<bar> < float_limit"
  shows "to_double x = Finite (of_int (round_half_even (x * 2 ^ 52 / 2 ^ n)) * 2 ^ n / 2 ^ 52)"
proof -
  have "binade x = int n"
    using assms(1,2) by (intro binade_eq) (simp_all add: powr_realpow powr_add)
  moreover have "0 < (2::real) ^ n" by simp
  with assms(1) have "0 < \<bar>x\<bar>" by linarith
  then have "x \<noteq> 0" by simp
  ultimately show ?thesis
    using assms(3) by (simp add: to_double_def Let_def two_powr_diff field_simps)
qed

lemma to_double_down:
  fixes n :: nat
  assumes "1 \<le> \<bar>x\<bar> * 2 ^ n" and "\<bar>x\<bar> * 2 ^ n < 2" and "n \<le> 1022"
  shows "to_double x = Finite (of_int (round_half_even (x * 2 ^ 52 * 2 ^ n)) / (2 ^ 52 * 2 ^ n))"
proof -
  have q1: "2 powr (1 - real n) = 2 / 2 ^ n"
    by (simp add: powr_diff powr_realpow)
  have "binade x = - int n"
    using assms by (intro binade_eq) (simp_all add: two_powr_neg q1 field_simps)
  moreover have "x \<noteq> 0" using assms(1) by auto
  moreover have "\<bar>x\<bar> \<le> \<bar>x\<bar> * 2 ^ n" by (simp add: mult_le_cancel_left1)
  with assms(2) have "\<bar>x\<bar> \<le> 2 ^ 64" by simp
  then have "\<not> float_limit \<le> \<bar>x\<bar>" by (rule small_below_limit)
  ultimately show ?thesis
    by (simp add: to_double_def Let_def two_powr_neg_diff field_simps)
qed

lemma literals:
  "to_double 0.296 = Finite (5332261958806667 / 2 ^ 54)"
  "to_double 1.04 = Finite (1170935903116329 / 2 ^ 50)"
  "to_double 0.92 = Finite (8286623314361713 / 2 ^ 53)"
  "to_double 1.90 = Finite (4278419646001971 / 2 ^ 51)"
proof -
  show "to_double 0.296 = Finite (5332261958806667 / 2 ^ 54)"
    using to_double_down [of "0.296" 2] by (simp add: round_half_even_def)
  show "to_double 1.04 = Finite (1170935903116329 / 2 ^ 50)"
    using to_double_up [of 0 "1.04"] small_below_limit [of "1.04"] by (simp add: round_half_even_def)
  show "to_double 0.92 = Finite (8286623314361713 / 2 ^ 53)"
    using to_double_down [of "0.92" 1] by (simp add: round_half_even_def)
  show "to_double 1.90 = Finite (4278419646001971 / 2 ^ 51)"
    using to_double_up [of 0 "1.90"] small_below_limit [of "1.90"] by (simp add: round_half_even_def)
qed


lemma as_double_3: "as_double (JNum 3) = Inr (Finite 3)"
  using to_double_up [of 1 3] small_below_limit [of 3]
  by (simp add: as_double_def round_half_even_def)

lemma products_3:
  "to_double (5332261958806667 / 2 ^ 54 * 3) = Finite (499899558638125 / 2 ^ 49)"
  "to_double (1170935903116329 / 2 ^ 50 * 3) = Finite (3512807709348987 / 2 ^ 50)"
  "to_double (8286623314361713 / 2 ^ 53 * 3) = Finite (6214967485771285 / 2 ^ 51)"
  "to_double (4278419646001971 / 2 ^ 51 * 3) = Finite (1604407367250739 / 2 ^ 48)"
proof -
  show "to_double (5332261958806667 / 2 ^ 54 * 3) = Finite (499899558638125 / 2 ^ 49)"
    using to_double_down [of "5332261958806667 / 2 ^ 54 * 3" 1]
    by (simp add: round_half_even_def)
  show "to_double (1170935903116329 / 2 ^ 50 * 3) = Finite (3512807709348987 / 2 ^ 50)"
    using to_double_up [of 1 "1170935903116329 / 2 ^ 50 * 3"]
      small_below_limit [of "1170935903116329 / 2 ^ 50 * 3"]
    by (simp add: round_half_even_def)
  show "to_double (8286623314361713 / 2 ^ 53 * 3) = Finite (6214967485771285 / 2 ^ 51)"
    using to_double_up [of 1 "8286623314361713 / 2 ^ 53 * 3"]
      small_below_limit [of "8286623314361713 / 2 ^ 53 * 3"]
    by (simp add: round_half_even_def)
  show "to_double (4278419646001971 / 2 ^ 51 * 3) = Finite (1604407367250739 / 2 ^ 48)"
    using to_double_up [of 2 "4278419646001971 / 2 ^ 51 * 3"]
      small_below_limit [of "4278419646001971 / 2 ^ 51 * 3"]
    by (simp add: round_half_even_def)
qed

lemma quotients_fat_3:
  "to_double (8286623314361713 / 2 ^ 53 / (4278419646001971 / 2 ^ 51)) =
     Finite (4361380691769323 / 2 ^ 53)"
  "to_double (6214967485771285 / 2 ^ 51 / (1604407367250739 / 2 ^ 48)) =
     Finite (8722761383538647 / 2 ^ 54)"
proof -
  show "to_double (8286623314361713 / 2 ^ 53 / (4278419646001971 / 2 ^ 51)) =
     Finite (4361380691769323 / 2 ^ 53)"
    using to_double_down [of "8286623314361713 / 2 ^ 53 / (4278419646001971 / 2 ^ 51)" 2]
    by (simp add: round_half_even_def)
  show "to_double (6214967485771285 / 2 ^ 51 / (1604407367250739 / 2 ^ 48)) =
     Finite (8722761383538647 / 2 ^ 54)"
    using to_double_down [of "6214967485771285 / 2 ^ 51 / (1604407367250739 / 2 ^ 48)" 2]
    by (simp add: round_half_even_def)
qed

lemma density_table:
  "map to_double densities =
     [Finite (5332261958806667 / 2 ^ 54), Finite (1170935903116329 / 2 ^ 50),
      Finite (8286623314361713 / 2 ^ 53), Finite (4278419646001971 / 2 ^ 51)]"
  using literals by (simp add: densities_def)

lemma dmax_density_table:
  "dmax [Finite (5332261958806667 / 2 ^ 54), Finite (1170935903116329 / 2 ^ 50),
      Finite (8286623314361713 / 2 ^ 53), Finite (4278419646001971 / 2 ^ 51)] =
   Inr (Finite (4278419646001971 / 2 ^ 51))"
  by simp

text \<open>
  C1, as the specification states it, fails in the arithmetic of the program: for fat
  and \<open>zsize\<close> 3 the density is 0.48421052631578954 and the opacity is
  0.4842105263157896, the next double.
\<close>

theorem binary64_opacity_differs:
  "set_density_binary64 (JStr ''fat'') (JNum 3) =
     Inr (Finite (8722761383538646 / 2 ^ 54), Finite (8722761383538647 / 2 ^ 54))"
proof -
  have "matching (JStr ''fat'') = [2]" by (simp add: matching_def materials_def)
  then show ?thesis
    unfolding set_density_binary64_def density_table Let_def
    using products_3 quotients_fat_3
    by (simp add: as_double_3)
qed

lemma round_half_even_near: "\<bar>real_of_int (round_half_even t) - t\<bar> \<le> 1 / 2"
  unfolding round_half_even_def Let_def
  by (auto; linarith)

lemma to_double_rel:
  assumes "1 / 2 ^ 1022 \<le> \<bar>x\<bar>" and "\<bar>x\<bar> < float_limit"
  shows "\<exists>d. \<bar>d\<bar> \<le> 1 / 2 ^ 53 \<and> to_double x = Finite (x * (1 + d))"
proof -
  have pos: "0 < \<bar>x\<bar>"
  proof -
    have "(0::real) < 1 / 2 ^ 1022" by simp
    with assms(1) show ?thesis by linarith
  qed
  then have nz: "x \<noteq> 0" by simp
  define e where "e = \<lfloor>log 2 \<bar>x\<bar>\<rfloor>"
  have low: "2 powr real_of_int e \<le> \<bar>x\<bar>"
  proof -
    have "real_of_int e \<le> log 2 \<bar>x\<bar>" unfolding e_def by (rule of_int_floor_le)
    then have "2 powr real_of_int e \<le> 2 powr log 2 \<bar>x\<bar>" by (simp add: powr_le_cancel_iff)
    with pos show ?thesis by simp
  qed
  have "2 powr (- 1022) \<le> \<bar>x\<bar>"
    using assms(1) two_powr_neg [of 1022] by simp
  then have "- 1022 \<le> log 2 \<bar>x\<bar>" using pos by (simp add: le_log_iff)
  then have "- 1022 \<le> e" unfolding e_def by (simp add: le_floor_iff)
  then have bin: "binade x = e" by (simp add: binade_def e_def)
  define U where "U = 2 powr real_of_int (e - 52)"
  have Upos: "0 < U" by (simp add: U_def)
  have Ule: "U * 2 ^ 52 \<le> \<bar>x\<bar>"
  proof -
    have "U = 2 powr real_of_int e / 2 powr 52"
      unfolding U_def by (simp add: powr_diff)
    then have "U * 2 ^ 52 = 2 powr real_of_int e" by simp
    with low show ?thesis by simp
  qed
  define y where "y = U * of_int (round_half_even (x / U))"
  have td: "to_double x = Finite y"
    using nz assms(2) by (simp add: to_double_def bin U_def y_def Let_def)
  have "\<bar>y - x\<bar> = U * \<bar>real_of_int (round_half_even (x / U)) - x / U\<bar>"
  proof -
    have "y - x = U * (real_of_int (round_half_even (x / U)) - x / U)"
      using Upos by (simp add: y_def algebra_simps)
    then show ?thesis using Upos by (simp add: abs_mult)
  qed
  also have "\<dots> \<le> U * (1 / 2)"
    using Upos round_half_even_near [of "x / U"] by (intro mult_left_mono) simp_all
  finally have err: "\<bar>y - x\<bar> \<le> U / 2" by simp
  define d where "d = (y - x) / x"
  have "x * (1 + d) = y" using nz by (simp add: d_def field_simps)
  moreover have "\<bar>d\<bar> \<le> 1 / 2 ^ 53"
  proof -
    have "\<bar>d\<bar> = \<bar>y - x\<bar> / \<bar>x\<bar>" by (simp add: d_def)
    also have "\<dots> \<le> (U / 2) / \<bar>x\<bar>"
      by (rule divide_right_mono [OF err]) simp
    also have "\<dots> \<le> (U / 2) / (U * 2 ^ 52)"
      using Ule Upos by (intro divide_left_mono) (simp_all add: pos)
    also have "\<dots> = 1 / 2 ^ 53" using Upos by simp
    finally show ?thesis .
  qed
  ultimately show ?thesis using td by auto
qed

lemma fold_fless_Finite:
  "foldl (\<lambda>m y. if fless m y then y else m) (Finite x) (map Finite xs) = Finite (foldl max x xs)"
  by (induction xs arbitrary: x) (simp_all add: max_def)

lemma dmax_Finite: "dmax (Finite x # map Finite xs) = Inr (Finite (foldl max x xs))"
  by (simp add: fold_fless_Finite)


lemma big_below_limit: "x \<le> 2 ^ 1010 \<Longrightarrow> x < float_limit"
proof -
  have "(2::real) ^ 1010 < float_limit" by (simp add: float_limit_def)
  then show "x \<le> 2 ^ 1010 \<Longrightarrow> x < float_limit" by linarith
qed

lemma to_double_pos_rel:
  assumes "1 / 2 ^ 1022 \<le> x" and "x \<le> 2 ^ 1010"
  shows "\<exists>y. to_double x = Finite y \<and> x * (1 - 1 / 2 ^ 53) \<le> y \<and> y \<le> x * (1 + 1 / 2 ^ 53)"
proof -
  have pos: "0 < x"
  proof -
    have "(0::real) < 1 / 2 ^ 1022" by simp
    with assms(1) show ?thesis by linarith
  qed
  then have ax: "\<bar>x\<bar> = x" by simp
  from to_double_rel [of x] assms big_below_limit [OF assms(2)] ax
  obtain d where d: "\<bar>d\<bar> \<le> 1 / 2 ^ 53" and td: "to_double x = Finite (x * (1 + d))"
    by auto
  from d have "- (1 / 2 ^ 53) \<le> d" "d \<le> 1 / 2 ^ 53" by linarith+
  then have "x * (1 - 1 / 2 ^ 53) \<le> x * (1 + d)" "x * (1 + d) \<le> x * (1 + 1 / 2 ^ 53)"
    using pos by (simp_all add: mult_le_cancel_left_pos)
  with td show ?thesis by blast
qed

lemma quotient_near:
  assumes K: "0 < K" and r: "1 / 8 \<le> r" "r \<le> 1"
    and a: "r * K * (1 - 1 / 2 ^ 53) \<le> a" "a \<le> r * K * (1 + 1 / 2 ^ 53)"
    and M: "K * (1 - 1 / 2 ^ 53) \<le> M" "M \<le> K * (1 + 1 / 2 ^ 53)" and aM: "a \<le> M"
  shows "\<exists>opac dens. fdiv (Finite a) (Finite M) = Inr (Finite opac) \<and>
     to_double r = Finite dens \<and> \<bar>opac - dens\<bar> \<le> 1 / 2 ^ 51"
proof -
  have u: "(0::real) < 1 - 1 / 2 ^ 53" by simp
  have Mpos: "0 < M"
  proof -
    have "0 < K * (1 - 1 / 2 ^ 53)" using K u by (rule mult_pos_pos)
    with M(1) show ?thesis by linarith
  qed
  have apos: "0 < a"
  proof -
    have "0 < r * K" using r(1) K by (intro mult_pos_pos) simp_all
    then have "0 < r * K * (1 - 1 / 2 ^ 53)" using u by (rule mult_pos_pos)
    with a(1) show ?thesis by linarith
  qed
  define q where "q = a / M"
  have qM: "q * M = a" using Mpos by (simp add: q_def)
  have qpos: "0 < q" using apos Mpos by (simp add: q_def)
  have q1: "q \<le> 1" using aM Mpos by (simp add: q_def)
  have I: "q * (1 - 1 / 2 ^ 53) \<le> r * (1 + 1 / 2 ^ 53)"
  proof -
    have "K * (q * (1 - 1 / 2 ^ 53)) = q * (K * (1 - 1 / 2 ^ 53))" by simp
    also have "\<dots> \<le> q * M" using M(1) qpos by (simp add: mult_le_cancel_left_pos)
    also have "\<dots> \<le> K * (r * (1 + 1 / 2 ^ 53))" using qM a(2) by (simp add: mult.commute mult.left_commute)
    finally show ?thesis using K by (simp only: mult_le_cancel_left_pos)
  qed
  have II: "r * (1 - 1 / 2 ^ 53) \<le> q * (1 + 1 / 2 ^ 53)"
  proof -
    have "K * (r * (1 - 1 / 2 ^ 53)) \<le> q * M" using qM a(1) by (simp add: mult.commute mult.left_commute)
    also have "\<dots> \<le> q * (K * (1 + 1 / 2 ^ 53))" using M(2) qpos by (simp add: mult_le_cancel_left_pos)
    also have "\<dots> = K * (q * (1 + 1 / 2 ^ 53))" by simp
    finally show ?thesis using K by (simp only: mult_le_cancel_left_pos)
  qed
  have qlow: "1 / 2 ^ 1022 \<le> q"
  proof -
    have "(1::real) / 2 ^ 1022 \<le> 1 / 16" by simp
    moreover have "1 / 16 \<le> q" using II r(1) by simp
    ultimately show ?thesis by linarith
  qed
  have qhigh: "q \<le> 2 ^ 1010"
  proof -
    have "(1::real) \<le> 2 ^ 1010" by simp
    with q1 show ?thesis by linarith
  qed
  from to_double_pos_rel [OF qlow qhigh] obtain opac where
    opac: "to_double q = Finite opac" "q * (1 - 1 / 2 ^ 53) \<le> opac" "opac \<le> q * (1 + 1 / 2 ^ 53)"
    by blast
  have rlow: "1 / 2 ^ 1022 \<le> r"
  proof -
    have "(1::real) / 2 ^ 1022 \<le> 1 / 8" by simp
    with r(1) show ?thesis by linarith
  qed
  have rhigh: "r \<le> 2 ^ 1010"
  proof -
    have "(1::real) \<le> 2 ^ 1010" by simp
    with r(2) show ?thesis by linarith
  qed
  from to_double_pos_rel [OF rlow rhigh] obtain dens where
    dens: "to_double r = Finite dens" "r * (1 - 1 / 2 ^ 53) \<le> dens" "dens \<le> r * (1 + 1 / 2 ^ 53)"
    by blast
  have "fdiv (Finite a) (Finite M) = Inr (Finite opac)"
    using Mpos opac(1) by (simp add: q_def)
  moreover have "\<bar>opac - dens\<bar> \<le> 1 / 2 ^ 51"
  proof -
    define u :: real where "u = 1 / 2 ^ 53"
    have u0: "0 \<le> u" by (simp add: u_def)
    have o1: "q - q * u \<le> opac" using opac(2) by (simp add: u_def algebra_simps)
    have o2: "opac \<le> q + q * u" using opac(3) by (simp add: u_def algebra_simps)
    have d1: "r - r * u \<le> dens" using dens(2) by (simp add: u_def algebra_simps)
    have d2: "dens \<le> r + r * u" using dens(3) by (simp add: u_def algebra_simps)
    have i1: "q - q * u \<le> r + r * u" using I by (simp add: u_def algebra_simps)
    have i2: "r - r * u \<le> q + q * u" using II by (simp add: u_def algebra_simps)
    have qu: "q * u \<le> u" using mult_right_mono [OF q1 u0] by simp
    have ru: "r * u \<le> u" using mult_right_mono [OF r(2) u0] by simp
    have "opac - dens \<le> 4 * u" using o2 d1 i1 qu ru by linarith
    moreover have "dens - opac \<le> 4 * u" using o1 d2 i2 qu ru by linarith
    ultimately have "\<bar>opac - dens\<bar> \<le> 4 * u" by linarith
    then show ?thesis by (simp add: u_def)
  qed
  ultimately show ?thesis using dens(1) by blast
qed


lemma product_rel:
  assumes "1 / 4 \<le> D" and "D \<le> 2" and "1 / 2 ^ 1001 \<le> z'" and "z' \<le> 2 ^ 1001"
  shows "\<exists>a. fmul (Finite D) (Finite z') = Finite a \<and>
     D * z' * (1 - 1 / 2 ^ 53) \<le> a \<and> a \<le> D * z' * (1 + 1 / 2 ^ 53)"
proof -
  have z0: "0 \<le> z'"
  proof -
    have "(0::real) \<le> 1 / 2 ^ 1001" by simp
    with assms(3) show ?thesis by linarith
  qed
  have "1 / 4 * (1 / 2 ^ 1001) \<le> D * z'"
    using assms(1,3) z0 by (intro mult_mono) simp_all
  moreover have "(1::real) / 2 ^ 1022 \<le> 1 / 4 * (1 / 2 ^ 1001)" by simp
  ultimately have low: "1 / 2 ^ 1022 \<le> D * z'" by linarith
  have "D * z' \<le> 2 * 2 ^ 1001"
    using assms(1,2,4) z0 by (intro mult_mono) simp_all
  moreover have "(2::real) * 2 ^ 1001 \<le> 2 ^ 1010" by simp
  ultimately have high: "D * z' \<le> 2 ^ 1010" by linarith
  from to_double_pos_rel [OF low high] show ?thesis by simp
qed

lemma core:
  assumes z': "0 < z'"
    and D: "1 / 4 \<le> D" "D \<le> D4" "D4 \<le> 2"
    and a: "D * z' * (1 - 1 / 2 ^ 53) \<le> a" "a \<le> D * z' * (1 + 1 / 2 ^ 53)"
    and M: "D4 * z' * (1 - 1 / 2 ^ 53) \<le> M" "M \<le> D4 * z' * (1 + 1 / 2 ^ 53)" "a \<le> M"
  shows "\<exists>opac dens. fdiv (Finite a) (Finite M) = Inr (Finite opac) \<and>
     fdiv (Finite D) (Finite D4) = Inr (Finite dens) \<and> \<bar>opac - dens\<bar> \<le> 1 / 2 ^ 51"
proof -
  have D4pos: "0 < D4" using D(1,2) by linarith
  define K where "K = D4 * z'"
  define r where "r = D / D4"
  have K: "0 < K" using D4pos z' by (simp add: K_def)
  have rK: "r * K = D * z'" using D4pos by (simp add: r_def K_def)
  have r1: "r \<le> 1" using D(2) D4pos by (simp add: r_def)
  have "1 / 8 * D4 \<le> D" using D(1,3) by linarith
  then have r8: "1 / 8 \<le> r" using D4pos by (simp add: r_def le_divide_eq)
  from quotient_near [OF K r8 r1, of a M] a M
  obtain opac dens where "fdiv (Finite a) (Finite M) = Inr (Finite opac)"
    "to_double r = Finite dens" "\<bar>opac - dens\<bar> \<le> 1 / 2 ^ 51"
    unfolding rK unfolding K_def by blast
  moreover have "fdiv (Finite D) (Finite D4) = Inr (to_double r)"
    using D4pos by (simp add: r_def)
  ultimately show ?thesis by auto
qed


lemma set_density_binary64_steps:
  assumes "map to_double densities = ds"
    and "map_err (\<lambda>d. case as_double z of Inl e \<Rightarrow> Inl e | Inr zf \<Rightarrow> Inr (fmul d zf)) ds =
      Inr os"
    and "matching m = [i]"
    and "dmax ds = Inr dm" and "fdiv (ds ! i) dm = Inr dens"
    and "dmax os = Inr om" and "fdiv (os ! i) om = Inr opac"
  shows "set_density_binary64 m z = Inr (dens, opac)"
  using assms by (simp add: set_density_binary64_def Let_def)

lemma matching_materials:
  "matching (JStr ''lung'') = [0]" "matching (JStr ''brain'') = [1]"
  "matching (JStr ''fat'') = [2]" "matching (JStr ''bone'') = [3]"
  by (simp_all add: matching_def materials_def)

text \<open>
  C1, amended. For every recognised material and every \<open>zsize\<close> from \<open>2^-1000\<close> to
  \<open>2^1000\<close>, where no product overflows or underflows, \<open>set_density\<close> in binary64 returns
  a finite density and a finite opacity that differ by at most \<open>2^-51\<close>. The density is
  the entry \<open>i\<close> of the material over the largest entry of the table; the opacity is
  the two-step path, the product of that entry with \<open>zsize\<close> over the largest of the
  four products; each product and quotient is rounded.
\<close>

theorem binary64_opacity_near_density:
  assumes m: "m \<in> set materials" and z: "1 / 2 ^ 1000 \<le> z" "z \<le> 2 ^ 1000"
  shows "\<exists>i zf dmx pmx dens opac.
     matching (JStr m) = [i] \<and>
     as_double (JNum z) = Inr (Finite zf) \<and>
     dmax (map to_double densities) = Inr dmx \<and>
     dmax (map (\<lambda>d. fmul (to_double d) (Finite zf)) densities) = Inr pmx \<and>
     fdiv (to_double (densities ! i)) dmx = Inr (Finite dens) \<and>
     fdiv (fmul (to_double (densities ! i)) (Finite zf)) pmx = Inr (Finite opac) \<and>
     set_density_binary64 (JStr m) (JNum z) = Inr (Finite dens, Finite opac) \<and>
     \<bar>opac - dens\<bar> \<le> 1 / 2 ^ 51"
proof -
  define D1 :: real where "D1 = 5332261958806667 / 2 ^ 54"
  define D2 :: real where "D2 = 1170935903116329 / 2 ^ 50"
  define D3 :: real where "D3 = 8286623314361713 / 2 ^ 53"
  define D4 :: real where "D4 = 4278419646001971 / 2 ^ 51"
  have tab: "map to_double densities = [Finite D1, Finite D2, Finite D3, Finite D4]"
    unfolding D1_def D2_def D3_def D4_def by (rule density_table)
  have Ds: "1 / 4 \<le> D1" "1 / 4 \<le> D2" "1 / 4 \<le> D3" "1 / 4 \<le> D4"
    "D1 \<le> D4" "D2 \<le> D4" "D3 \<le> D4" "D4 \<le> D4" "D4 \<le> 2"
    "D1 \<le> 2" "D2 \<le> 2" "D3 \<le> 2"
    by (simp_all add: D1_def D2_def D3_def D4_def)
  have dmx: "dmax [Finite D1, Finite D2, Finite D3, Finite D4] = Inr (Finite D4)"
    using Ds by (simp add: max_def)
  \<comment> \<open>the operand\<close>
  have "(1::real) / 2 ^ 1022 \<le> 1 / 2 ^ 1000" by simp
  with z(1) have zl: "1 / 2 ^ 1022 \<le> z" by linarith
  have "(2::real) ^ 1000 \<le> 2 ^ 1010" by simp
  with z(2) have zh: "z \<le> 2 ^ 1010" by linarith
  from to_double_pos_rel [OF zl zh] obtain z' where
    z': "to_double z = Finite z'" "z * (1 - 1 / 2 ^ 53) \<le> z'" "z' \<le> z * (1 + 1 / 2 ^ 53)"
    by blast
  have asd: "as_double (JNum z) = Inr (Finite z')" by (simp add: as_double_def z'(1))
  have "1 / 2 ^ 1000 * (1 - 1 / 2 ^ 53) \<le> z * (1 - 1 / 2 ^ 53)"
    using z(1) by (intro mult_right_mono) simp_all
  moreover have "(1::real) / 2 ^ 1001 \<le> 1 / 2 ^ 1000 * (1 - 1 / 2 ^ 53)" by simp
  ultimately have z'l: "1 / 2 ^ 1001 \<le> z'" using z'(2) by linarith
  have "z * (1 + 1 / 2 ^ 53) \<le> 2 ^ 1000 * (1 + 1 / 2 ^ 53)"
    using z(2) by (intro mult_right_mono) simp_all
  moreover have "(2::real) ^ 1000 * (1 + 1 / 2 ^ 53) \<le> 2 ^ 1001" by simp
  ultimately have z'h: "z' \<le> 2 ^ 1001" using z'(3) by linarith
  have "(0::real) < 1 / 2 ^ 1001" by simp
  with z'l have z'pos: "0 < z'" by linarith
  \<comment> \<open>the four products\<close>
  from product_rel [OF Ds(1) Ds(10) z'l z'h] obtain a1 where
    a1: "fmul (Finite D1) (Finite z') = Finite a1"
      "D1 * z' * (1 - 1 / 2 ^ 53) \<le> a1" "a1 \<le> D1 * z' * (1 + 1 / 2 ^ 53)" by blast
  from product_rel [OF Ds(2) Ds(11) z'l z'h] obtain a2 where
    a2: "fmul (Finite D2) (Finite z') = Finite a2"
      "D2 * z' * (1 - 1 / 2 ^ 53) \<le> a2" "a2 \<le> D2 * z' * (1 + 1 / 2 ^ 53)" by blast
  from product_rel [OF Ds(3) Ds(12) z'l z'h] obtain a3 where
    a3: "fmul (Finite D3) (Finite z') = Finite a3"
      "D3 * z' * (1 - 1 / 2 ^ 53) \<le> a3" "a3 \<le> D3 * z' * (1 + 1 / 2 ^ 53)" by blast
  from product_rel [OF Ds(4) Ds(9) z'l z'h] obtain a4 where
    a4: "fmul (Finite D4) (Finite z') = Finite a4"
      "D4 * z' * (1 - 1 / 2 ^ 53) \<le> a4" "a4 \<le> D4 * z' * (1 + 1 / 2 ^ 53)" by blast
  have ops: "map_err (\<lambda>d. case as_double (JNum z) of Inl e \<Rightarrow> Inl e
                | Inr zf \<Rightarrow> Inr (fmul d zf)) [Finite D1, Finite D2, Finite D3, Finite D4] =
      Inr [Finite a1, Finite a2, Finite a3, Finite a4]"
    using a1(1) a2(1) a3(1) a4(1) by (simp add: asd)
  have nth: "to_double (densities ! 0) = Finite D1" "to_double (densities ! 1) = Finite D2"
    "to_double (densities ! 2) = Finite D3" "to_double (densities ! 3) = Finite D4"
    using tab by (simp_all add: densities_def)
  have prods: "map (\<lambda>d. fmul (to_double d) (Finite z')) densities =
      [Finite a1, Finite a2, Finite a3, Finite a4]"
    using tab a1(1) a2(1) a3(1) a4(1) by (simp add: densities_def)
  define M where "M = max (max (max a1 a2) a3) a4"
  have omx: "dmax [Finite a1, Finite a2, Finite a3, Finite a4] = Inr (Finite M)"
    using dmax_Finite [of a1 "[a2, a3, a4]"] by (simp add: M_def)
  have up: "D * z' * (1 + 1 / 2 ^ 53) \<le> D4 * z' * (1 + 1 / 2 ^ 53)" if "D \<le> D4" for D
    using that z'pos by (intro mult_right_mono) simp_all
  have Mlow: "D4 * z' * (1 - 1 / 2 ^ 53) \<le> M" using a4(2) by (simp add: M_def)
  have Mhigh: "M \<le> D4 * z' * (1 + 1 / 2 ^ 53)"
    using a1(3) a2(3) a3(3) a4(3) up [OF Ds(5)] up [OF Ds(6)] up [OF Ds(7)]
    by (simp add: M_def)
  have le: "a1 \<le> M" "a2 \<le> M" "a3 \<le> M" "a4 \<le> M" by (simp_all add: M_def)
  note c1 = core [OF z'pos Ds(1) Ds(5) Ds(9) a1(2,3) Mlow Mhigh le(1)]
  note c2 = core [OF z'pos Ds(2) Ds(6) Ds(9) a2(2,3) Mlow Mhigh le(2)]
  note c3 = core [OF z'pos Ds(3) Ds(7) Ds(9) a3(2,3) Mlow Mhigh le(3)]
  note c4 = core [OF z'pos Ds(4) Ds(8) Ds(9) a4(2,3) Mlow Mhigh le(4)]
  from materials_cases [OF m] consider
    "m = ''lung''" | "m = ''brain''" | "m = ''fat''" | "m = ''bone''" by blast
  then show ?thesis
  proof cases
    case 1
    from c1 obtain opac dens where o: "fdiv (Finite a1) (Finite M) = Inr (Finite opac)"
      and d: "fdiv (Finite D1) (Finite D4) = Inr (Finite dens)"
      and n: "\<bar>opac - dens\<bar> \<le> 1 / 2 ^ 51" by blast
    have "set_density_binary64 (JStr m) (JNum z) = Inr (Finite dens, Finite opac)"
    proof (rule set_density_binary64_steps [OF tab ops _ dmx _ omx])
      show "matching (JStr m) = [0]" by (simp add: 1 matching_materials)
      show "fdiv ([Finite D1, Finite D2, Finite D3, Finite D4] ! 0) (Finite D4) = Inr (Finite dens)"
        using d by simp
      show "fdiv ([Finite a1, Finite a2, Finite a3, Finite a4] ! 0) (Finite M) = Inr (Finite opac)"
        using o by simp
    qed
    moreover have "matching (JStr m) = [0]" by (simp add: 1 matching_materials)
    moreover have "fdiv (to_double (densities ! 0)) (Finite D4) = Inr (Finite dens)"
      using d by (simp only: nth)
    moreover have "fdiv (fmul (to_double (densities ! 0)) (Finite z')) (Finite M) =
        Inr (Finite opac)"
      using o by (simp only: nth a1(1))
    moreover note asd n
    moreover have "dmax (map to_double densities) = Inr (Finite D4)"
      using dmx by (simp only: tab)
    moreover have "dmax (map (\<lambda>d. fmul (to_double d) (Finite z')) densities) = Inr (Finite M)"
      using omx by (simp only: prods)
    ultimately show ?thesis by blast
  next
    case 2
    from c2 obtain opac dens where o: "fdiv (Finite a2) (Finite M) = Inr (Finite opac)"
      and d: "fdiv (Finite D2) (Finite D4) = Inr (Finite dens)"
      and n: "\<bar>opac - dens\<bar> \<le> 1 / 2 ^ 51" by blast
    have "set_density_binary64 (JStr m) (JNum z) = Inr (Finite dens, Finite opac)"
    proof (rule set_density_binary64_steps [OF tab ops _ dmx _ omx])
      show "matching (JStr m) = [1]" by (simp add: 2 matching_materials)
      show "fdiv ([Finite D1, Finite D2, Finite D3, Finite D4] ! 1) (Finite D4) = Inr (Finite dens)"
        using d by simp
      show "fdiv ([Finite a1, Finite a2, Finite a3, Finite a4] ! 1) (Finite M) = Inr (Finite opac)"
        using o by simp
    qed
    moreover have "matching (JStr m) = [1]" by (simp add: 2 matching_materials)
    moreover have "fdiv (to_double (densities ! 1)) (Finite D4) = Inr (Finite dens)"
      using d by (simp only: nth)
    moreover have "fdiv (fmul (to_double (densities ! 1)) (Finite z')) (Finite M) =
        Inr (Finite opac)"
      using o by (simp only: nth a2(1))
    moreover note asd n
    moreover have "dmax (map to_double densities) = Inr (Finite D4)"
      using dmx by (simp only: tab)
    moreover have "dmax (map (\<lambda>d. fmul (to_double d) (Finite z')) densities) = Inr (Finite M)"
      using omx by (simp only: prods)
    ultimately show ?thesis by blast
  next
    case 3
    from c3 obtain opac dens where o: "fdiv (Finite a3) (Finite M) = Inr (Finite opac)"
      and d: "fdiv (Finite D3) (Finite D4) = Inr (Finite dens)"
      and n: "\<bar>opac - dens\<bar> \<le> 1 / 2 ^ 51" by blast
    have "set_density_binary64 (JStr m) (JNum z) = Inr (Finite dens, Finite opac)"
    proof (rule set_density_binary64_steps [OF tab ops _ dmx _ omx])
      show "matching (JStr m) = [2]" by (simp add: 3 matching_materials)
      show "fdiv ([Finite D1, Finite D2, Finite D3, Finite D4] ! 2) (Finite D4) = Inr (Finite dens)"
        using d by simp
      show "fdiv ([Finite a1, Finite a2, Finite a3, Finite a4] ! 2) (Finite M) = Inr (Finite opac)"
        using o by simp
    qed
    moreover have "matching (JStr m) = [2]" by (simp add: 3 matching_materials)
    moreover have "fdiv (to_double (densities ! 2)) (Finite D4) = Inr (Finite dens)"
      using d by (simp only: nth)
    moreover have "fdiv (fmul (to_double (densities ! 2)) (Finite z')) (Finite M) =
        Inr (Finite opac)"
      using o by (simp only: nth a3(1))
    moreover note asd n
    moreover have "dmax (map to_double densities) = Inr (Finite D4)"
      using dmx by (simp only: tab)
    moreover have "dmax (map (\<lambda>d. fmul (to_double d) (Finite z')) densities) = Inr (Finite M)"
      using omx by (simp only: prods)
    ultimately show ?thesis by blast
  next
    case 4
    from c4 obtain opac dens where o: "fdiv (Finite a4) (Finite M) = Inr (Finite opac)"
      and d: "fdiv (Finite D4) (Finite D4) = Inr (Finite dens)"
      and n: "\<bar>opac - dens\<bar> \<le> 1 / 2 ^ 51" by blast
    have "set_density_binary64 (JStr m) (JNum z) = Inr (Finite dens, Finite opac)"
    proof (rule set_density_binary64_steps [OF tab ops _ dmx _ omx])
      show "matching (JStr m) = [3]" by (simp add: 4 matching_materials)
      show "fdiv ([Finite D1, Finite D2, Finite D3, Finite D4] ! 3) (Finite D4) = Inr (Finite dens)"
        using d by simp
      show "fdiv ([Finite a1, Finite a2, Finite a3, Finite a4] ! 3) (Finite M) = Inr (Finite opac)"
        using o by simp
    qed
    moreover have "matching (JStr m) = [3]" by (simp add: 4 matching_materials)
    moreover have "fdiv (to_double (densities ! 3)) (Finite D4) = Inr (Finite dens)"
      using d by (simp only: nth)
    moreover have "fdiv (fmul (to_double (densities ! 3)) (Finite z')) (Finite M) =
        Inr (Finite opac)"
      using o by (simp only: nth a4(1))
    moreover note asd n
    moreover have "dmax (map to_double densities) = Inr (Finite D4)"
      using dmx by (simp only: tab)
    moreover have "dmax (map (\<lambda>d. fmul (to_double d) (Finite z')) densities) = Inr (Finite M)"
      using omx by (simp only: prods)
    ultimately show ?thesis by blast
  qed
qed

theorem binary64_opacity_near_density_witness:
  "\<exists>i zf dmx pmx dens opac.
     matching (JStr ''fat'') = [i] \<and>
     as_double (JNum 3) = Inr (Finite zf) \<and>
     dmax (map to_double densities) = Inr dmx \<and>
     dmax (map (\<lambda>d. fmul (to_double d) (Finite zf)) densities) = Inr pmx \<and>
     fdiv (to_double (densities ! i)) dmx = Inr (Finite dens) \<and>
     fdiv (fmul (to_double (densities ! i)) (Finite zf)) pmx = Inr (Finite opac) \<and>
     set_density_binary64 (JStr ''fat'') (JNum 3) = Inr (Finite dens, Finite opac) \<and>
     \<bar>opac - dens\<bar> \<le> 1 / 2 ^ 51"
  by (rule binary64_opacity_near_density) (simp_all add: materials_def)

text \<open>An \<open>int\<close> too large for a float: the constructor and the projection raise
  \<open>OverflowError\<close>, in exact arithmetic and in binary64.\<close>

lemma overflow_paths:
  "set_density (JStr ''bone'') (JNum (10 ^ 400)) = Inl OverflowError"
  "set_density_binary64 (JStr ''bone'') (JNum (10 ^ 400)) = Inl OverflowError"
  "scale \<lparr>size_cm = 25, px = 512\<rparr> (JNum (10 ^ 400)) = Inl OverflowError"
proof -
  have big: "float_limit \<le> 10 ^ 400" by (simp add: float_limit_def)
  then have big': "float_limit \<le> \<bar>10 ^ 400\<bar>" by simp
  show "set_density (JStr ''bone'') (JNum (10 ^ 400)) = Inl OverflowError"
    using big by (simp add: set_density_def densities_def float_mul_def to_float_def)
  have "to_double (10 ^ 400) = PosInf" using big by (simp add: to_double_def)
  then show "set_density_binary64 (JStr ''bone'') (JNum (10 ^ 400)) = Inl OverflowError"
    by (simp add: set_density_binary64_def densities_def as_double_def)
  have "float_limit \<le> \<bar>10 ^ 400 * real 512\<bar>"
  proof -
    have "(10::real) ^ 400 \<le> 10 ^ 400 * 512" by simp
    with big show ?thesis by simp
  qed
  then show "scale \<lparr>size_cm = 25, px = 512\<rparr> (JNum (10 ^ 400)) = Inl OverflowError"
    by (simp add: scale_def)
qed

subsection \<open>Beyond the range\<close>

text \<open>Outside the range of the amended claim the opacity is lost while the density
  stays. With \<open>zsize\<close> \<open>3 * 2^1022\<close> the product of bone overflows to an infinity: the
  opacity of fat is 0.0 and that of bone is NaN. With the least positive double,
  \<open>2^-1074\<close>, the products round to 0, 1, 1 and 2 units: the opacity of lung is 0.0 and
  that of fat is 0.5.\<close>

lemma to_double_finite: "\<bar>x\<bar> < float_limit \<Longrightarrow> \<exists>y. to_double x = Finite y"
  by (simp add: to_double_def Let_def)

lemma to_double_subnormal:
  assumes "x \<noteq> 0" and "\<bar>x\<bar> < 1 / 2 ^ 1022"
  shows "to_double x = Finite (of_int (round_half_even (x * 2 ^ 1074)) / 2 ^ 1074)"
proof -
  have pos: "0 < \<bar>x\<bar>" using assms(1) by simp
  have "\<bar>x\<bar> < 2 powr (- 1022)"
    using assms(2) two_powr_neg [of 1022] by simp
  then have "log 2 \<bar>x\<bar> < - 1022"
    using pos by (simp add: log_less_iff)
  then have "\<lfloor>log 2 \<bar>x\<bar>\<rfloor> \<le> - 1022" by linarith
  then have b: "binade x = - 1022" by (simp add: binade_def)
  have "(1::real) / 2 ^ 1022 \<le> 2 ^ 64" by simp
  with assms(2) have "\<bar>x\<bar> \<le> 2 ^ 64" by linarith
  then have lim: "\<not> float_limit \<le> \<bar>x\<bar>" by (rule small_below_limit)
  have u: "(2::real) powr - 1074 = 1 / 2 ^ 1074"
    using two_powr_neg [of 1074] by simp
  have "to_double x =
      Finite (2 powr - 1074 * of_int (round_half_even (x / 2 powr - 1074)))"
    using assms(1) lim by (simp add: to_double_def Let_def b)
  then show ?thesis unfolding u by simp
qed

lemma as_double_big: "as_double (JNum (3 * 2 ^ 1022)) = Inr (Finite (3 * 2 ^ 1022))"
proof -
  have "\<bar>3 * 2 ^ 1022 :: real\<bar> < float_limit" by (simp add: float_limit_def)
  with to_double_up [of 1023 "3 * 2 ^ 1022"] show ?thesis
    by (simp add: as_double_def round_half_even_def)
qed

lemma binary64_opacity_overflow:
  "set_density_binary64 (JStr ''fat'') (JNum (3 * 2 ^ 1022)) =
     Inr (Finite (8722761383538646 / 2 ^ 54), Finite 0)"
  "set_density_binary64 (JStr ''bone'') (JNum (3 * 2 ^ 1022)) = Inr (Finite 1, NaN)"
proof -
  define D1 :: real where "D1 = 5332261958806667 / 2 ^ 54"
  define D2 :: real where "D2 = 1170935903116329 / 2 ^ 50"
  define D3 :: real where "D3 = 8286623314361713 / 2 ^ 53"
  define D4 :: real where "D4 = 4278419646001971 / 2 ^ 51"
  define Z :: real where "Z = 3 * 2 ^ 1022"
  have tab: "map to_double densities = [Finite D1, Finite D2, Finite D3, Finite D4]"
    unfolding D1_def D2_def D3_def D4_def by (rule density_table)
  have asd: "as_double (JNum Z) = Inr (Finite Z)" unfolding Z_def by (rule as_double_big)
  have "\<bar>D1 * Z\<bar> < float_limit" by (simp add: D1_def Z_def float_limit_def)
  from to_double_finite [OF this] obtain a1 where a1: "to_double (D1 * Z) = Finite a1" by blast
  have "\<bar>D2 * Z\<bar> < float_limit" by (simp add: D2_def Z_def float_limit_def)
  from to_double_finite [OF this] obtain a2 where a2: "to_double (D2 * Z) = Finite a2" by blast
  have "\<bar>D3 * Z\<bar> < float_limit" by (simp add: D3_def Z_def float_limit_def)
  from to_double_finite [OF this] obtain a3 where a3: "to_double (D3 * Z) = Finite a3" by blast
  have "float_limit \<le> \<bar>D4 * Z\<bar>" "0 < D4 * Z" by (simp_all add: D4_def Z_def float_limit_def)
  moreover have "D4 \<noteq> 0" "Z \<noteq> 0" by (simp_all add: D4_def Z_def)
  ultimately have a4: "to_double (D4 * Z) = PosInf" by (simp add: to_double_def)
  have ops: "map_err (\<lambda>d. case as_double (JNum Z) of Inl e \<Rightarrow> Inl e
                | Inr zf \<Rightarrow> Inr (fmul d zf)) [Finite D1, Finite D2, Finite D3, Finite D4] =
      Inr [Finite a1, Finite a2, Finite a3, PosInf]"
    using a1 a2 a3 a4 by (simp add: asd)
  have omx: "dmax [Finite a1, Finite a2, Finite a3, PosInf] = Inr PosInf" by simp
  have dmx: "dmax [Finite D1, Finite D2, Finite D3, Finite D4] = Inr (Finite D4)"
    by (simp add: D1_def D2_def D3_def D4_def)
  have one: "to_double 1 = Finite 1"
    using to_double_up [of 0 1] small_below_limit [of 1] by (simp add: round_half_even_def)
  show "set_density_binary64 (JStr ''fat'') (JNum (3 * 2 ^ 1022)) =
     Inr (Finite (8722761383538646 / 2 ^ 54), Finite 0)"
    unfolding Z_def [symmetric]
  proof (rule set_density_binary64_steps [OF tab ops _ dmx _ omx])
    show "matching (JStr ''fat'') = [2]" by (simp add: matching_materials)
    show "fdiv ([Finite D1, Finite D2, Finite D3, Finite D4] ! 2) (Finite D4) =
        Inr (Finite (8722761383538646 / 2 ^ 54))"
      using quotients_fat_3(1) by (simp add: D3_def D4_def)
    show "fdiv ([Finite a1, Finite a2, Finite a3, PosInf] ! 2) PosInf = Inr (Finite 0)"
      by simp
  qed
  show "set_density_binary64 (JStr ''bone'') (JNum (3 * 2 ^ 1022)) = Inr (Finite 1, NaN)"
    unfolding Z_def [symmetric]
  proof (rule set_density_binary64_steps [OF tab ops _ dmx _ omx])
    show "matching (JStr ''bone'') = [3]" by (simp add: matching_materials)
    show "fdiv ([Finite D1, Finite D2, Finite D3, Finite D4] ! 3) (Finite D4) = Inr (Finite 1)"
      using one by (simp add: D4_def)
    show "fdiv ([Finite a1, Finite a2, Finite a3, PosInf] ! 3) PosInf = Inr NaN"
      by simp
  qed
qed

lemma binary64_opacity_underflow:
  "set_density_binary64 (JStr ''lung'') (JNum (1 / 2 ^ 1074)) =
     Inr (Finite (2806453662529825 / 2 ^ 54), Finite 0)"
  "set_density_binary64 (JStr ''fat'') (JNum (1 / 2 ^ 1074)) =
     Inr (Finite (8722761383538646 / 2 ^ 54), Finite (1 / 2))"
proof -
  define D1 :: real where "D1 = 5332261958806667 / 2 ^ 54"
  define D2 :: real where "D2 = 1170935903116329 / 2 ^ 50"
  define D3 :: real where "D3 = 8286623314361713 / 2 ^ 53"
  define D4 :: real where "D4 = 4278419646001971 / 2 ^ 51"
  define Z :: real where "Z = 1 / 2 ^ 1074"
  have tab: "map to_double densities = [Finite D1, Finite D2, Finite D3, Finite D4]"
    unfolding D1_def D2_def D3_def D4_def by (rule density_table)
  have asd: "as_double (JNum Z) = Inr (Finite Z)"
    using to_double_subnormal [of Z] by (simp add: as_double_def Z_def round_half_even_def)
  have a1: "to_double (D1 * Z) = Finite 0"
    using to_double_subnormal [of "D1 * Z"] by (simp add: D1_def Z_def round_half_even_def)
  have a2: "to_double (D2 * Z) = Finite Z"
    using to_double_subnormal [of "D2 * Z"] by (simp add: D2_def Z_def round_half_even_def)
  have a3: "to_double (D3 * Z) = Finite Z"
    using to_double_subnormal [of "D3 * Z"] by (simp add: D3_def Z_def round_half_even_def)
  have a4: "to_double (D4 * Z) = Finite (2 * Z)"
    using to_double_subnormal [of "D4 * Z"] by (simp add: D4_def Z_def round_half_even_def)
  have ops: "map_err (\<lambda>d. case as_double (JNum Z) of Inl e \<Rightarrow> Inl e
                | Inr zf \<Rightarrow> Inr (fmul d zf)) [Finite D1, Finite D2, Finite D3, Finite D4] =
      Inr [Finite 0, Finite Z, Finite Z, Finite (2 * Z)]"
    using a1 a2 a3 a4 by (simp add: asd)
  have omx: "dmax [Finite 0, Finite Z, Finite Z, Finite (2 * Z)] = Inr (Finite (2 * Z))"
    by (simp add: Z_def)
  have dmx: "dmax [Finite D1, Finite D2, Finite D3, Finite D4] = Inr (Finite D4)"
    by (simp add: D1_def D2_def D3_def D4_def)
  have half: "to_double (1 / 2) = Finite (1 / 2)"
    using to_double_down [of "1 / 2" 1] by (simp add: round_half_even_def)
  have lung: "to_double (D1 / D4) = Finite (2806453662529825 / 2 ^ 54)"
    using to_double_down [of "D1 / D4" 3] by (simp add: D1_def D4_def round_half_even_def)
  show "set_density_binary64 (JStr ''lung'') (JNum (1 / 2 ^ 1074)) =
     Inr (Finite (2806453662529825 / 2 ^ 54), Finite 0)"
    unfolding Z_def [symmetric]
  proof (rule set_density_binary64_steps [OF tab ops _ dmx _ omx])
    show "matching (JStr ''lung'') = [0]" by (simp add: matching_materials)
    show "fdiv ([Finite D1, Finite D2, Finite D3, Finite D4] ! 0) (Finite D4) =
        Inr (Finite (2806453662529825 / 2 ^ 54))"
      using lung by (simp add: D4_def)
    show "fdiv ([Finite 0, Finite Z, Finite Z, Finite (2 * Z)] ! 0) (Finite (2 * Z)) =
        Inr (Finite 0)"
      by (simp add: Z_def to_double_def)
  qed
  show "set_density_binary64 (JStr ''fat'') (JNum (1 / 2 ^ 1074)) =
     Inr (Finite (8722761383538646 / 2 ^ 54), Finite (1 / 2))"
    unfolding Z_def [symmetric]
  proof (rule set_density_binary64_steps [OF tab ops _ dmx _ omx])
    show "matching (JStr ''fat'') = [2]" by (simp add: matching_materials)
    show "fdiv ([Finite D1, Finite D2, Finite D3, Finite D4] ! 2) (Finite D4) =
        Inr (Finite (8722761383538646 / 2 ^ 54))"
      using quotients_fat_3(1) by (simp add: D3_def D4_def)
    show "fdiv ([Finite 0, Finite Z, Finite Z, Finite (2 * Z)] ! 2) (Finite (2 * Z)) =
        Inr (Finite (1 / 2))"
      using half by (simp add: Z_def)
  qed
qed

end
